theory Spec2Isabelle
  imports Main "HOL-Library.Sublist" "HOL-Library.Multiset"
begin

section \<open>JavaScript values\<close>

text \<open>
  The reminder manager (\<^verbatim>\<open>modules/todoReminderManager.js\<close>) receives payloads that were
  parsed from backend messages, so a payload is a JSON value: it holds no functions and no
  shared references.  Numbers are modelled as integers (counts, identifiers and
  millisecond time stamps); strings are byte strings in UTF-8.  An object is the list of
  its own properties, the first binding of a name being the property's value.
\<close>

datatype jsval =
    JUndefined
  | JNull
  | JBool bool
  | JNum int
  | JStr string
  | JArr "jsval list"
  | JObj "(string \<times> jsval) list"

datatype error = TypeError

text \<open>What the environment of the page supplies and the module only calls.\<close>

record host =
  timeText :: "jsval \<Rightarrow> string"
  stringToNumber :: "string \<Rightarrow> int option"
  numberText :: "int \<Rightarrow> string"
  nowOnCreate :: int
  nowOnDisplay :: int

text \<open>
  \<^item> \<open>timeText\<close> is the text the method \<^verbatim>\<open>formatTime\<close> (lines 467--500) returns for a
    value that \<^verbatim>\<open>new Date\<close> accepts: it reads the wall clock and the local calendar
    through \<^verbatim>\<open>Date\<close>.  The text is taken as given, the clock standing still while one
    popup is built.
  \<^item> \<open>stringToNumber\<close> is the language's conversion of a string to a number
    (\<open>None\<close> for \<^verbatim>\<open>NaN\<close>), used where a value is compared with \<^verbatim>\<open>>\<close>.
  \<^item> \<open>numberText\<close> is the language's text of an integer outside the safe range, where
    it rounds the digits or switches to the exponent notation.
  \<^item> \<open>nowOnCreate\<close> and \<open>nowOnDisplay\<close> are the readings of \<^verbatim>\<open>Date.now()\<close> in
    \<^verbatim>\<open>createReminderElement\<close> (line 141) and in \<^verbatim>\<open>displayReminder\<close> (line 308).
\<close>

fun truthy :: "jsval \<Rightarrow> bool" where
  "truthy JUndefined = False"
| "truthy JNull = False"
| "truthy (JBool b) = b"
| "truthy (JNum n) = (n \<noteq> 0)"
| "truthy (JStr s) = (s \<noteq> [])"
| "truthy (JArr xs) = True"
| "truthy (JObj kvs) = True"

fun nullish :: "jsval \<Rightarrow> bool" where
  "nullish JUndefined = True"
| "nullish JNull = True"
| "nullish v = False"

text \<open>The operator \<^verbatim>\<open>a || b\<close>, as a value.\<close>

definition js_or :: "jsval \<Rightarrow> jsval \<Rightarrow> jsval" where
  "js_or a b = (if truthy a then a else b)"

text \<open>
  The length of a string in UTF-16 code units, counted on its UTF-8 bytes: one unit for
  every byte that starts a character, and a second one for a character of four bytes.
\<close>

definition js_length :: "string \<Rightarrow> nat" where
  "js_length s =
     length (filter (\<lambda>c. \<not> (128 \<le> (of_char c :: nat) \<and> (of_char c :: nat) < 192)) s)
     + length (filter (\<lambda>c. 240 \<le> (of_char c :: nat)) s)"

text \<open>
  Reading the property \<open>k\<close> of a value that is neither \<^verbatim>\<open>null\<close> nor
  \<^verbatim>\<open>undefined\<close>.  The module reads fixed names only; of the inherited properties
  \<^verbatim>\<open>length\<close> is the one it reads as a value.
\<close>

fun js_get :: "jsval \<Rightarrow> string \<Rightarrow> jsval" where
  "js_get (JObj kvs) k = (case map_of kvs k of Some v \<Rightarrow> v | None \<Rightarrow> JUndefined)"
| "js_get (JArr xs) k = (if k = ''length'' then JNum (int (length xs)) else JUndefined)"
| "js_get (JStr s) k = (if k = ''length'' then JNum (int (js_length s)) else JUndefined)"
| "js_get v k = JUndefined"

text \<open>
  Reading a property of \<^verbatim>\<open>null\<close> or \<^verbatim>\<open>undefined\<close> throws a \<open>TypeError\<close>; the
  functions below test \<open>nullish\<close> where the module reads a property of an item.  The
  optional read \<^verbatim>\<open>v?.k\<close> gives \<^verbatim>\<open>undefined\<close> instead.
\<close>

definition js_get_opt :: "jsval \<Rightarrow> string \<Rightarrow> jsval" where
  "js_get_opt v k = (if nullish v then JUndefined else js_get v k)"

text \<open>
  \<^verbatim>\<open>a === b\<close>.  Two values of a parsed payload that are objects or arrays are never the
  same reference.
\<close>

fun strict_eq :: "jsval \<Rightarrow> jsval \<Rightarrow> bool" where
  "strict_eq (JArr xs) b = False"
| "strict_eq (JObj kvs) b = False"
| "strict_eq a b = (a = b)"

subsection \<open>Conversion to strings and to numbers\<close>

text \<open>
  Converting an object to a primitive value calls its \<^verbatim>\<open>toString\<close> and
  \<^verbatim>\<open>valueOf\<close>.  An object of a payload inherits both; an own property of the name
  \<^verbatim>\<open>toString\<close> hides the inherited method and, being a JSON value, cannot be called:
  the conversion then throws a \<open>TypeError\<close>.  (An own \<^verbatim>\<open>valueOf\<close> is skipped, and
  the inherited one returns the object itself, so \<^verbatim>\<open>toString\<close> decides in either
  order.)  An array converts by joining its elements, converting every element that is
  neither \<^verbatim>\<open>null\<close> nor \<^verbatim>\<open>undefined\<close>.  \<open>convertible v\<close> tells that the
  conversion of \<open>v\<close> does not throw.
\<close>

fun convertible :: "jsval \<Rightarrow> bool" where
  "convertible (JObj kvs) = (map_of kvs ''toString'' = None)"
| "convertible (JArr xs) = list_all (\<lambda>x. nullish x \<or> convertible x) xs"
| "convertible v = True"

text \<open>The decimal digits of a number that is not negative.\<close>

function digits :: "int \<Rightarrow> string" where
  "digits n =
     (if n < 10 then [''0123456789'' ! nat n]
      else digits (n div 10) @ [''0123456789'' ! nat (n mod 10)])"
  by pat_completeness auto
termination
  by (relation "measure nat") auto

declare digits.simps [simp del]

text \<open>
  The text of an integer: its decimal digits in the safe range (below \<open>2\<close> to the power
  53 in magnitude), where every integer is a number of the language and prints exactly.
\<close>

definition show_int :: "host \<Rightarrow> int \<Rightarrow> string" where
  "show_int h i =
     (if \<bar>i\<bar> < 9007199254740992
      then (if i < 0 then ''-'' @ digits (- i) else digits i)
      else numberText h i)"

fun join :: "string \<Rightarrow> string list \<Rightarrow> string" where
  "join sep [] = []"
| "join sep [s] = s"
| "join sep (s # t # ss) = s @ sep @ join sep (t # ss)"

text \<open>
  The text of a convertible value.  An array joins its elements with commas,
  \<^verbatim>\<open>null\<close> and \<^verbatim>\<open>undefined\<close> elements giving the empty string.
\<close>

fun toText :: "host \<Rightarrow> jsval \<Rightarrow> string" where
  "toText h JUndefined = ''undefined''"
| "toText h JNull = ''null''"
| "toText h (JBool b) = (if b then ''true'' else ''false'')"
| "toText h (JNum n) = show_int h n"
| "toText h (JStr s) = s"
| "toText h (JArr xs) = join '','' (map (\<lambda>x. if nullish x then [] else toText h x) xs)"
| "toText h (JObj kvs) = ''[object Object]''"

text \<open>
  \<^verbatim>\<open>String(v)\<close>, which a template literal \<^verbatim>\<open>${v}\<close>, \<^verbatim>\<open>setAttribute\<close> and an
  assignment to \<^verbatim>\<open>textContent\<close> apply to a value.
\<close>

definition toString :: "host \<Rightarrow> jsval \<Rightarrow> error + string" where
  "toString h v = (if convertible v then Inr (toText h v) else Inl TypeError)"

text \<open>\<^verbatim>\<open>Number(v)\<close> of a convertible value; \<open>None\<close> is \<^verbatim>\<open>NaN\<close>.\<close>

fun toNumber :: "host \<Rightarrow> jsval \<Rightarrow> int option" where
  "toNumber h JUndefined = None"
| "toNumber h JNull = Some 0"
| "toNumber h (JBool b) = Some (if b then 1 else 0)"
| "toNumber h (JNum n) = Some n"
| "toNumber h v = stringToNumber h (toText h v)"

text \<open>
  \<^verbatim>\<open>v > k\<close> for a number \<open>k\<close>: it converts \<open>v\<close> to a number, which throws where the
  conversion to a primitive value does, and is false when \<open>v\<close> is not a number.
\<close>

definition js_gt :: "host \<Rightarrow> jsval \<Rightarrow> int \<Rightarrow> error + bool" where
  "js_gt h v k =
     (if convertible v
      then Inr (case toNumber h v of Some n \<Rightarrow> k < n | None \<Rightarrow> False)
      else Inl TypeError)"

text \<open>\<^verbatim>\<open>v && v.length > k\<close>: the comparison is made only when \<open>v\<close> is truthy.\<close>

definition longer_than :: "host \<Rightarrow> jsval \<Rightarrow> int \<Rightarrow> error + bool" where
  "longer_than h v k = (if truthy v then js_gt h (js_get v ''length'') k else Inr False)"

text \<open>
  \<^verbatim>\<open>formatTime(v)\<close>: \<^verbatim>\<open>new Date(v)\<close> converts an object or array to a primitive
  value first and throws where that conversion does.
\<close>

definition formatTime :: "host \<Rightarrow> jsval \<Rightarrow> error + string" where
  "formatTime h v = (if convertible v then Inr (timeText h v) else Inl TypeError)"

text \<open>
  A template literal: its pieces in order, each a literal part (\<open>Inr\<close> of its text) or
  an interpolated expression that may throw; the first exception leaves the template.
\<close>

fun template :: "(error + string) list \<Rightarrow> error + string" where
  "template [] = Inr []"
| "template (Inl e # ps) = Inl e"
| "template (Inr s # ps) = (case template ps of Inl e \<Rightarrow> Inl e | Inr t \<Rightarrow> Inr (s @ t))"

section \<open>The markup templates\<close>

text \<open>
  The literal parts of the template strings of the module, character for character
  (line breaks and indentation included), named after the place they open or close.
  Characters outside ASCII are written as their UTF-8 bytes.
\<close>

definition header_open :: string where
  \<open>header_open = ''\<newline>            <div class="todo-reminder-header">\<newline>                <div class="todo-reminder-title">\<newline>                    <span class="priority-icon">''\<close>

definition header_title :: string where
  \<open>header_title = ''</span>\<newline>                    <span class="title-text">''\<close>

definition header_close :: string where
  \<open>header_close = ''</span>\<newline>                </div>\<newline>                <button class="todo-reminder-close" onclick="todoReminderManager.closeReminder(this)">\<newline>                    <svg viewBox="0 0 24 24" width="18" height="18" fill="none" stroke="currentColor" stroke-width="2">\<newline>                        <path d="M18 6L6 18M6 6l12 12"/>\<newline>                    </svg>\<newline>                </button>\<newline>            </div>\<newline>            <div class="todo-reminder-body">\<newline>        ''\<close>

definition body_close :: string where
  \<open>body_close = ''</div>''\<close>

definition actions_open :: string where
  \<open>actions_open = ''\<newline>            <div class="todo-reminder-actions">\<newline>                ''\<close>

definition badge_open :: string where
  \<open>badge_open = ''<span class="todo-agent-badge">''\<close>

definition badge_close :: string where
  \<open>badge_close = ''</span>''\<close>

definition btn_view_open :: string where
  \<open>btn_view_open = ''\<newline>                <button class="todo-action-btn btn-view" onclick="todoReminderManager.viewTodo('' @ [CHR 0x27]\<close>

definition btn_dismiss_open :: string where
  \<open>btn_dismiss_open = [CHR 0x27] @ '')">'' @ [CHR 0xE6, CHR 0x9F, CHR 0xA5, CHR 0xE7, CHR 0x9C, CHR 0x8B, CHR 0xE8, CHR 0xAF, CHR 0xA6, CHR 0xE6, CHR 0x83, CHR 0x85] @ ''</button>\<newline>                <button class="todo-action-btn btn-dismiss" onclick="todoReminderManager.dismissReminder('' @ [CHR 0x27]\<close>

definition btn_complete_open :: string where
  \<open>btn_complete_open = [CHR 0x27] @ '')">'' @ [CHR 0xE7, CHR 0xA8, CHR 0x8D, CHR 0xE5, CHR 0x90, CHR 0x8E, CHR 0xE6, CHR 0x8F, CHR 0x90, CHR 0xE9, CHR 0x86, CHR 0x92] @ ''</button>\<newline>                <button class="todo-action-btn btn-complete" onclick="todoReminderManager.completeTodo('' @ [CHR 0x27]\<close>

definition actions_close :: string where
  \<open>actions_close = [CHR 0x27] @ '')">'' @ [CHR 0xE6, CHR 0xA0, CHR 0x87, CHR 0xE8, CHR 0xAE, CHR 0xB0, CHR 0xE5, CHR 0xAE, CHR 0x8C, CHR 0xE6, CHR 0x88, CHR 0x90] @ ''</button>\<newline>            </div>\<newline>        ''\<close>

definition default_title :: string where
  \<open>default_title = [CHR 0xE5, CHR 0xBE, CHR 0x85, CHR 0xE5, CHR 0x8A, CHR 0x9E, CHR 0xE6, CHR 0x8F, CHR 0x90, CHR 0xE9, CHR 0x86, CHR 0x92]\<close>

definition overdue_title :: string where
  \<open>overdue_title = [CHR 0xE2, CHR 0x9A, CHR 0xA0, CHR 0xEF, CHR 0xB8, CHR 0x8F] @ '' '' @ [CHR 0xE5, CHR 0xBE, CHR 0x85, CHR 0xE5, CHR 0x8A, CHR 0x9E, CHR 0xE9, CHR 0x80, CHR 0xBE, CHR 0xE6, CHR 0x9C, CHR 0x9F, CHR 0xE6, CHR 0x8F, CHR 0x90, CHR 0xE9, CHR 0x86, CHR 0x92]\<close>

definition overdue_count_open :: string where
  \<open>overdue_count_open = [CHR 0xE6, CHR 0x82, CHR 0xA8, CHR 0xE6, CHR 0x9C, CHR 0x89] @ '' ''\<close>

definition overdue_count_close :: string where
  \<open>overdue_count_close = '' '' @ [CHR 0xE4, CHR 0xB8, CHR 0xAA, CHR 0xE5, CHR 0xBE, CHR 0x85, CHR 0xE5, CHR 0x8A, CHR 0x9E, CHR 0xE4, CHR 0xBA, CHR 0x8B, CHR 0xE9, CHR 0xA1, CHR 0xB9, CHR 0xE5, CHR 0xB7, CHR 0xB2, CHR 0xE9, CHR 0x80, CHR 0xBE, CHR 0xE6, CHR 0x9C, CHR 0x9F]\<close>

definition summary_title :: string where
  \<open>summary_title = [CHR 0xF0, CHR 0x9F, CHR 0x93, CHR 0x8B] @ '' '' @ [CHR 0xE4, CHR 0xBB, CHR 0x8A, CHR 0xE6, CHR 0x97, CHR 0xA5, CHR 0xE5, CHR 0xBE, CHR 0x85, CHR 0xE5, CHR 0x8A, CHR 0x9E, CHR 0xE6, CHR 0xB1, CHR 0x87, CHR 0xE6, CHR 0x80, CHR 0xBB]\<close>

definition stats_total :: string where
  \<open>stats_total = ''\<newline>            <div class="summary-stats">\<newline>                <div class="stat-item">\<newline>                    <span class="stat-label">'' @ [CHR 0xE6, CHR 0x80, CHR 0xBB, CHR 0xE8, CHR 0xAE, CHR 0xA1] @ ''</span>\<newline>                    <span class="stat-value">''\<close>

definition stats_completed :: string where
  \<open>stats_completed = ''</span>\<newline>                </div>\<newline>                <div class="stat-item">\<newline>                    <span class="stat-label">'' @ [CHR 0xE5, CHR 0xB7, CHR 0xB2, CHR 0xE5, CHR 0xAE, CHR 0x8C, CHR 0xE6, CHR 0x88, CHR 0x90] @ ''</span>\<newline>                    <span class="stat-value completed">''\<close>

definition stats_pending :: string where
  \<open>stats_pending = ''</span>\<newline>                </div>\<newline>                <div class="stat-item">\<newline>                    <span class="stat-label">'' @ [CHR 0xE5, CHR 0xBE, CHR 0x85, CHR 0xE5, CHR 0x8A, CHR 0x9E] @ ''</span>\<newline>                    <span class="stat-value pending">''\<close>

definition stats_pending_close :: string where
  \<open>stats_pending_close = ''</span>\<newline>                </div>\<newline>                ''\<close>

definition stats_overdue :: string where
  \<open>stats_overdue = ''\<newline>                <div class="stat-item">\<newline>                    <span class="stat-label">'' @ [CHR 0xE9, CHR 0x80, CHR 0xBE, CHR 0xE6, CHR 0x9C, CHR 0x9F] @ ''</span>\<newline>                    <span class="stat-value overdue">''\<close>

definition stats_overdue_close :: string where
  \<open>stats_overdue_close = ''</span>\<newline>                </div>\<newline>                ''\<close>

definition stats_close :: string where
  \<open>stats_close = ''\<newline>            </div>\<newline>        ''\<close>

definition summary_list_open :: string where
  \<open>summary_list_open = ''<div class="summary-items-list">''\<close>

definition summary_item_open :: string where
  \<open>summary_item_open = ''\<newline>                    <div class="summary-item">\<newline>                        <span class="item-priority priority-''\<close>

definition summary_item_icon :: string where
  \<open>summary_item_icon = ''">''\<close>

definition summary_item_content :: string where
  \<open>summary_item_content = ''</span>\<newline>                        <span class="item-content">''\<close>

definition summary_item_close :: string where
  \<open>summary_item_close = ''</span>\<newline>                    </div>\<newline>                ''\<close>

definition summary_more_open :: string where
  \<open>summary_more_open = ''<div class="summary-item-more">'' @ [CHR 0xE8, CHR 0xBF, CHR 0x98, CHR 0xE6, CHR 0x9C, CHR 0x89] @ '' ''\<close>

definition summary_more_close :: string where
  \<open>summary_more_close = '' '' @ [CHR 0xE9, CHR 0xA1, CHR 0xB9] @ ''...</div>''\<close>

definition summary_list_close :: string where
  \<open>summary_list_close = ''</div>''\<close>

definition overdue_list_open :: string where
  \<open>overdue_list_open = ''<div class="overdue-items-list">''\<close>

definition overdue_item_open :: string where
  \<open>overdue_item_open = ''\<newline>                <div class="overdue-item">\<newline>                    <div class="overdue-item-header">\<newline>                        <span class="overdue-item-title">''\<close>

definition overdue_item_title_close :: string where
  \<open>overdue_item_title_close = ''</span>\<newline>                        ''\<close>

definition overdue_time_open :: string where
  \<open>overdue_time_open = ''<span class="overdue-time">'' @ [CHR 0xE5, CHR 0xBA, CHR 0x94, CHR 0xE4, CHR 0xBA, CHR 0x8E] @ '' ''\<close>

definition overdue_time_close :: string where
  \<open>overdue_time_close = '' '' @ [CHR 0xE5, CHR 0xAE, CHR 0x8C, CHR 0xE6, CHR 0x88, CHR 0x90] @ ''</span>''\<close>

definition overdue_item_header_close :: string where
  \<open>overdue_item_header_close = ''\<newline>                    </div>\<newline>                    ''\<close>

definition overdue_item_content_open :: string where
  \<open>overdue_item_content_open = ''<p class="overdue-item-content">''\<close>

definition overdue_item_content_close :: string where
  \<open>overdue_item_content_close = ''</p>''\<close>

definition overdue_item_close :: string where
  \<open>overdue_item_close = ''\<newline>                </div>\<newline>            ''\<close>

definition overdue_more_open :: string where
  \<open>overdue_more_open = ''<div class="overdue-item-more">'' @ [CHR 0xE8, CHR 0xBF, CHR 0x98, CHR 0xE6, CHR 0x9C, CHR 0x89] @ '' ''\<close>

definition overdue_more_close :: string where
  \<open>overdue_more_close = '' '' @ [CHR 0xE9, CHR 0xA1, CHR 0xB9, CHR 0xE9, CHR 0x80, CHR 0xBE, CHR 0xE6, CHR 0x9C, CHR 0x9F] @ ''...</div>''\<close>

definition overdue_list_close :: string where
  \<open>overdue_list_close = ''</div>''\<close>

definition content_open :: string where
  \<open>content_open = ''<p class="todo-content">''\<close>

definition content_close :: string where
  \<open>content_close = ''</p>''\<close>

definition time_open :: string where
  \<open>time_open = ''\<newline>                <div class="todo-time">\<newline>                    <svg viewBox="0 0 24 24" width="14" height="14" fill="none" stroke="currentColor" stroke-width="2">\<newline>                        <circle cx="12" cy="12" r="10"/>\<newline>                        <path d="M12 6v6l4 2"/>\<newline>                    </svg>\<newline>                    <span>''\<close>

definition time_close :: string where
  \<open>time_close = ''</span>\<newline>                </div>\<newline>            ''\<close>

definition tags_open :: string where
  \<open>tags_open = ''\<newline>                <div class="todo-tags">\<newline>                    ''\<close>

definition tag_open :: string where
  \<open>tag_open = ''<span class="todo-tag">''\<close>

definition tag_close :: string where
  \<open>tag_close = ''</span>''\<close>

definition tags_close :: string where
  \<open>tags_close = ''\<newline>                </div>\<newline>            ''\<close>

definition icon_high :: string where
  \<open>icon_high = [CHR 0xF0, CHR 0x9F, CHR 0x94, CHR 0xB4]\<close>

definition icon_medium :: string where
  \<open>icon_medium = [CHR 0xF0, CHR 0x9F, CHR 0x9F, CHR 0xA1]\<close>

definition icon_low :: string where
  \<open>icon_low = [CHR 0xF0, CHR 0x9F, CHR 0x9F, CHR 0xA2]\<close>

definition icon_default :: string where
  \<open>icon_default = [CHR 0xF0, CHR 0x9F, CHR 0x94, CHR 0xB5]\<close>

definition unknown_kind_warning :: string where
  \<open>unknown_kind_warning = [CHR 0xE6, CHR 0x9C, CHR 0xAA, CHR 0xE7, CHR 0x9F, CHR 0xA5, CHR 0xE7, CHR 0x9A, CHR 0x84, CHR 0xE6, CHR 0x8F, CHR 0x90, CHR 0xE9, CHR 0x86, CHR 0x92, CHR 0xE7, CHR 0xB1, CHR 0xBB, CHR 0xE5, CHR 0x9E, CHR 0x8B] @ '':''\<close>

section \<open>Rendering\<close>

subsection \<open>\<^verbatim>\<open>escapeHtml\<close> (lines 505--510)\<close>

text \<open>
  \<^verbatim>\<open>div.textContent = text\<close> converts \<open>text\<close> to a string, and
  \<^verbatim>\<open>div.innerHTML\<close> serialises the text node: the ampersand, the angle brackets and
  the no-break space (U+00A0, the bytes C2 A0) are replaced by their entities, every other
  character is kept.
\<close>

definition escapeChar :: "char \<Rightarrow> string" where
  "escapeChar c =
     (if c = CHR ''&'' then ''&amp;''
      else if c = CHR ''<'' then ''&lt;''
      else if c = CHR ''>'' then ''&gt;''
      else [c])"

fun escapeText :: "string \<Rightarrow> string" where
  "escapeText (c # d # cs) =
     (if c = CHR 0xC2 \<and> d = CHR 0xA0 then ''&nbsp;'' @ escapeText cs
      else escapeChar c @ escapeText (d # cs))"
| "escapeText [c] = escapeChar c"
| "escapeText [] = []"

definition escapeHtml :: "host \<Rightarrow> jsval \<Rightarrow> error + string" where
  "escapeHtml h text =
     (if \<not> truthy text then Inr []
      else (case toString h text of Inl e \<Rightarrow> Inl e | Inr s \<Rightarrow> Inr (escapeText s)))"

subsection \<open>\<^verbatim>\<open>getPriorityIcon\<close> (lines 451--462)\<close>

definition getPriorityIcon :: "jsval \<Rightarrow> string" where
  "getPriorityIcon priority =
     (if priority = JStr ''high'' then icon_high
      else if priority = JStr ''medium'' then icon_medium
      else if priority = JStr ''low'' then icon_low
      else icon_default)"

subsection \<open>\<^verbatim>\<open>renderNormalContent\<close> (lines 259--287)\<close>

text \<open>
  \<^verbatim>\<open>tags.map\<close> is a function only when \<open>tags\<close> is an array; on any other value that
  passed the test \<^verbatim>\<open>tags && tags.length > 0\<close> the call throws.
\<close>

definition tagHtml :: "host \<Rightarrow> jsval \<Rightarrow> error + string" where
  "tagHtml h tag = template [Inr tag_open, escapeHtml h tag, Inr tag_close]"

definition renderNormalContent :: "host \<Rightarrow> jsval \<Rightarrow> jsval \<Rightarrow> jsval \<Rightarrow> error + string" where
  "renderNormalContent h content time tags =
     (case template
             [if truthy content
              then template [Inr content_open, escapeHtml h content, Inr content_close]
              else Inr [],
              if truthy time
              then template [Inr time_open, formatTime h time, Inr time_close]
              else Inr []] of
        Inl e \<Rightarrow> Inl e
      | Inr html \<Rightarrow>
          (case longer_than h tags 0 of
             Inl e \<Rightarrow> Inl e
           | Inr some \<Rightarrow>
               if some then
                 (case tags of
                    JArr ts \<Rightarrow>
                      template [Inr html, Inr tags_open, template (map (tagHtml h) ts),
                                Inr tags_close]
                  | _ \<Rightarrow> Inl TypeError)
               else Inr html))"

subsection \<open>\<^verbatim>\<open>renderDailySummary\<close> (lines 190--231)\<close>

text \<open>The statistics block, lines 191--212; \<open>summary\<close> is not \<^verbatim>\<open>null\<close> here.\<close>

definition summaryStats :: "host \<Rightarrow> jsval \<Rightarrow> error + string" where
  "summaryStats h summary =
     template
       [Inr stats_total, toString h (js_get summary ''total''),
        Inr stats_completed, toString h (js_get summary ''completed''),
        Inr stats_pending, toString h (js_get summary ''pending''),
        Inr stats_pending_close,
        (case js_gt h (js_get summary ''overdue'') 0 of
           Inl e \<Rightarrow> Inl e
         | Inr positive \<Rightarrow>
             if positive
             then template [Inr stats_overdue, toString h (js_get summary ''overdue''),
                            Inr stats_overdue_close]
             else Inr []),
        Inr stats_close]"

text \<open>
  The markup of one item, lines 217--222; reading a property of a \<^verbatim>\<open>null\<close> item
  throws.
\<close>

definition summaryItemHtml :: "host \<Rightarrow> jsval \<Rightarrow> error + string" where
  "summaryItemHtml h item =
     (if nullish item then Inl TypeError
      else template
             [Inr summary_item_open,
              toString h (js_or (js_get item ''priority'') (JStr ''normal'')),
              Inr summary_item_icon, Inr (getPriorityIcon (js_get item ''priority'')),
              Inr summary_item_content,
              escapeHtml h (js_or (js_or (js_get item ''content'') (js_get item ''message''))
                                  (js_get item ''title'')),
              Inr summary_item_close])"

text \<open>
  The body of \<^verbatim>\<open>forEach\<close> (line 216), run on the items in order with the markup
  built so far.
\<close>

fun summaryItems :: "host \<Rightarrow> string \<Rightarrow> jsval list \<Rightarrow> error + string" where
  "summaryItems h html [] = Inr html"
| "summaryItems h html (item # rest) =
     (case summaryItemHtml h item of
        Inl e \<Rightarrow> Inl e
      | Inr t \<Rightarrow> summaryItems h (html @ t) rest)"

text \<open>
  \<^verbatim>\<open>items.slice(0, 5).forEach\<close> is a function only when \<open>items\<close> is an array: a
  string has \<^verbatim>\<open>slice\<close> but no \<^verbatim>\<open>forEach\<close>, any other value has neither.
\<close>

definition renderDailySummary :: "host \<Rightarrow> jsval \<Rightarrow> jsval \<Rightarrow> error + string" where
  "renderDailySummary h summary items =
     (if nullish summary then Inl TypeError
      else
        (case summaryStats h summary of
           Inl e \<Rightarrow> Inl e
         | Inr html \<Rightarrow>
             (case longer_than h items 0 of
                Inl e \<Rightarrow> Inl e
              | Inr some \<Rightarrow>
                  if some then
                    (case items of
                       JArr xs \<Rightarrow>
                         (case summaryItems h (html @ summary_list_open) (take 5 xs) of
                            Inl e \<Rightarrow> Inl e
                          | Inr html \<Rightarrow>
                              Inr ((if 5 < length xs
                                    then html @ summary_more_open
                                         @ show_int h (int (length xs) - 5)
                                         @ summary_more_close
                                    else html)
                                   @ summary_list_close))
                     | _ \<Rightarrow> Inl TypeError)
                  else Inr html)))"

subsection \<open>\<^verbatim>\<open>renderOverdueList\<close> (lines 236--254)\<close>

definition overdueItemHtml :: "host \<Rightarrow> jsval \<Rightarrow> error + string" where
  "overdueItemHtml h item =
     (if nullish item then Inl TypeError
      else template
             [Inr overdue_item_open,
              escapeHtml h (js_or (js_or (js_get item ''title'') (js_get item ''content''))
                                  (js_get item ''message'')),
              Inr overdue_item_title_close,
              if truthy (js_get item ''scheduledTime'')
              then template [Inr overdue_time_open,
                             formatTime h (js_get item ''scheduledTime''),
                             Inr overdue_time_close]
              else Inr [],
              Inr overdue_item_header_close,
              if truthy (js_get item ''content'')
                 \<and> \<not> strict_eq (js_get item ''title'') (js_get item ''content'')
              then template [Inr overdue_item_content_open,
                             escapeHtml h (js_get item ''content''),
                             Inr overdue_item_content_close]
              else Inr [],
              Inr overdue_item_close])"

fun overdueItems :: "host \<Rightarrow> string \<Rightarrow> jsval list \<Rightarrow> error + string" where
  "overdueItems h html [] = Inr html"
| "overdueItems h html (item # rest) =
     (case overdueItemHtml h item of
        Inl e \<Rightarrow> Inl e
      | Inr t \<Rightarrow> overdueItems h (html @ t) rest)"

definition renderOverdueList :: "host \<Rightarrow> jsval \<Rightarrow> error + string" where
  "renderOverdueList h items =
     (case items of
        JArr xs \<Rightarrow>
          (case overdueItems h overdue_list_open (take 3 xs) of
             Inl e \<Rightarrow> Inl e
           | Inr html \<Rightarrow>
               Inr ((if 3 < length xs
                     then html @ overdue_more_open
                          @ show_int h (int (length xs) - 3) @ overdue_more_close
                     else html)
                    @ overdue_list_close))
      | _ \<Rightarrow> Inl TypeError)"

subsection \<open>\<^verbatim>\<open>createReminderElement\<close> (lines 125--185)\<close>

record element =
  className :: string
  dataTodoId :: string
  innerHTML :: string

text \<open>
  The part of the markup between the opening and the closing tag of
  \<^verbatim>\<open>todo-reminder-body\<close>, lines 163--169.  \<open>config\<close> is the object literal the caller
  built.
\<close>

definition popupBody :: "host \<Rightarrow> jsval \<Rightarrow> error + string" where
  "popupBody h config =
     (let summary = js_get config ''summary''; items = js_get config ''items''
      in if js_get config ''type'' = JStr ''daily_summary'' \<and> truthy summary
           then renderDailySummary h summary items
         else
           (case (if js_get config ''type'' = JStr ''overdue'' then longer_than h items 1
                  else Inr False) of
              Inl e \<Rightarrow> Inl e
            | Inr several \<Rightarrow>
                if several then renderOverdueList h items
                else renderNormalContent h (js_get config ''content'')
                       (js_get config ''time'') (js_get config ''tags'')))"

text \<open>The header, lines 147--160.\<close>

definition popupHeader :: "host \<Rightarrow> jsval \<Rightarrow> error + string" where
  "popupHeader h config =
     template [Inr header_open, Inr (getPriorityIcon (js_get config ''priority'')),
               Inr header_title, escapeHtml h (js_get config ''title''), Inr header_close]"

text \<open>The action buttons, lines 174--181.\<close>

definition popupActions :: "host \<Rightarrow> jsval \<Rightarrow> error + string" where
  "popupActions h config =
     (let agentName = js_get config ''agentName''; todoId = js_get config ''todoId''
      in template
           [Inr actions_open,
            if truthy agentName
            then template [Inr badge_open, escapeHtml h agentName, Inr badge_close]
            else Inr [],
            Inr btn_view_open, toString h todoId,
            Inr btn_dismiss_open, toString h todoId,
            Inr btn_complete_open, toString h todoId,
            Inr actions_close])"

text \<open>
  The class is set at line 140, the attribute at line 141, the markup is built from line
  147 on and assigned at line 183.
\<close>

definition createReminderElement :: "host \<Rightarrow> jsval \<Rightarrow> error + element" where
  "createReminderElement h config =
     (case template [Inr ''todo-reminder-popup priority-'',
                     toString h (js_get config ''priority''),
                     Inr '' type-'', toString h (js_get config ''type'')] of
        Inl e \<Rightarrow> Inl e
      | Inr cls \<Rightarrow>
          (case toString h (js_or (js_get config ''todoId'') (JNum (nowOnCreate h))) of
             Inl e \<Rightarrow> Inl e
           | Inr todoIdText \<Rightarrow>
               (case template [popupHeader h config, popupBody h config, Inr body_close,
                               popupActions h config] of
                  Inl e \<Rightarrow> Inl e
                | Inr html \<Rightarrow>
                    Inr \<lparr> className = cls, dataTodoId = todoIdText, innerHTML = html \<rparr>)))"

section \<open>The manager and its effects\<close>

text \<open>
  A tone is (frequency in Hz, gain in hundredths, duration in ms, delay of its start in
  ms).  An event is one effect on the page, in program order.
\<close>

type_synonym tone = "nat \<times> nat \<times> nat \<times> nat"

datatype event =
    AppendChild element
  | RequestAnimationFrame bool
  | MapSet jsval
  | ConsoleWarn string jsval
  | Beep "tone list"

text \<open>
  \<^item> \<open>AppendChild el\<close>: \<^verbatim>\<open>container.appendChild(el)\<close>, the popup enters the page;
  \<^item> \<open>RequestAnimationFrame shake\<close>: the callback of lines 297--305 is registered; it
    adds the class \<^verbatim>\<open>show\<close>, and \<^verbatim>\<open>shake\<close> when the flag holds;
  \<^item> \<open>MapSet k\<close>: \<^verbatim>\<open>activeReminders.set(k, ...)\<close>;
  \<^item> \<open>ConsoleWarn label v\<close>: \<^verbatim>\<open>console.warn(label, v)\<close>;
  \<^item> \<open>Beep tones\<close>: one run of \<^verbatim>\<open>playSound\<close> that reached the oscillator, with the
    tones it starts.
\<close>

record world =
  container :: "element list option"
  audioContext :: bool
  activeReminders :: "(jsval \<times> element \<times> jsval) list"
  effects :: "event list"

text \<open>
  The fields of the manager after its constructor: \<open>container\<close> is \<open>None\<close> when
  \<^verbatim>\<open>init\<close> found no container element (lines 17--20), otherwise the popups appended
  to it; \<open>audioContext\<close> tells whether the audio context could be made (lines 23--27);
  \<open>activeReminders\<close> is the \<^verbatim>\<open>Map\<close> in insertion order.
\<close>

fun is_primitive :: "jsval \<Rightarrow> bool" where
  "is_primitive (JArr xs) = False"
| "is_primitive (JObj kvs) = False"
| "is_primitive v = True"

text \<open>
  \<^verbatim>\<open>Map.prototype.set\<close>: a key that is already there keeps its place and gets the new
  value.  An object or array of a freshly parsed payload is a key no entry has.
\<close>

definition map_set :: "(jsval \<times> 'v) list \<Rightarrow> jsval \<Rightarrow> 'v \<Rightarrow> (jsval \<times> 'v) list" where
  "map_set m k v =
     (if is_primitive k \<and> k \<in> fst ` set m
      then map (\<lambda>(k', v'). if k' = k then (k', v) else (k', v')) m
      else m @ [(k, v)])"

subsection \<open>\<^verbatim>\<open>playSound\<close> (lines 395--446)\<close>

text \<open>
  Without an audio context \<^verbatim>\<open>playSound\<close> returns at line 396.  With one, the calls
  of the audio interface are taken to succeed (an exception of theirs is caught at line
  443 and never leaves the method): the priority high starts a tone at once and a second
  one from a timer of 200 ms, every other priority starts one tone.
\<close>

definition toneProfile :: "jsval \<Rightarrow> tone list" where
  "toneProfile priority =
     (if priority = JStr ''high'' then [(800, 30, 300, 0), (900, 30, 300, 200)]
      else if priority = JStr ''medium'' then [(600, 20, 200, 0)]
      else [(400, 15, 150, 0)])"

definition playSound :: "world \<Rightarrow> jsval \<Rightarrow> world" where
  "playSound w priority =
     (if \<not> audioContext w then w
      else w\<lparr>effects := effects w @ [Beep (toneProfile priority)]\<rparr>)"

subsection \<open>\<^verbatim>\<open>displayReminder\<close> (lines 292--316)\<close>

text \<open>\<^verbatim>\<open>this.container.appendChild\<close> throws when the container is \<^verbatim>\<open>null\<close>.\<close>

definition displayReminder :: "host \<Rightarrow> world \<Rightarrow> element \<Rightarrow> jsval \<Rightarrow> error + world" where
  "displayReminder h w reminderEl data =
     (case container w of
        None \<Rightarrow> Inl TypeError
      | Some children \<Rightarrow>
          (let todoId = js_or (js_get data ''todoId'') (JNum (nowOnDisplay h))
           in Inr (w\<lparr>container := Some (children @ [reminderEl]),
                     activeReminders := map_set (activeReminders w) todoId (reminderEl, data),
                     effects := effects w
                        @ [AppendChild reminderEl,
                           RequestAnimationFrame (js_get data ''priority'' = JStr ''high''),
                           MapSet todoId]\<rparr>)))"

subsection \<open>\<^verbatim>\<open>showNormalReminder\<close> (lines 61--74)\<close>

definition normalConfig :: "jsval \<Rightarrow> jsval" where
  "normalConfig data =
     JObj [(''type'', JStr ''normal''),
           (''priority'', js_or (js_get data ''priority'') (JStr ''normal'')),
           (''title'', js_or (js_get data ''title'') (JStr default_title)),
           (''content'', js_or (js_get data ''content'') (js_get data ''message'')),
           (''time'', js_or (js_get data ''scheduledTime'') (js_get data ''timestamp'')),
           (''tags'', js_or (js_get data ''tags'') (JArr [])),
           (''agentName'', js_get data ''agentName''),
           (''todoId'', js_get data ''todoId'')]"

definition showNormalReminder :: "host \<Rightarrow> world \<Rightarrow> jsval \<Rightarrow> error + world" where
  "showNormalReminder h w data =
     (case createReminderElement h (normalConfig data) of
        Inl e \<Rightarrow> Inl e
      | Inr reminder \<Rightarrow> displayReminder h w reminder data)"

subsection \<open>\<^verbatim>\<open>showOverdueAlert\<close> (lines 79--95)\<close>

text \<open>
  \<^verbatim>\<open>v[0]\<close> for a value that is not \<^verbatim>\<open>null\<close>: the first element of an array, the
  first character of a string, the property \<^verbatim>\<open>0\<close> of an object.
\<close>

fun js_first :: "jsval \<Rightarrow> jsval" where
  "js_first (JArr []) = JUndefined"
| "js_first (JArr (x # xs)) = x"
| "js_first (JStr []) = JUndefined"
| "js_first (JStr (c # cs)) =
     JStr (c # takeWhile (\<lambda>d. 128 \<le> (of_char d :: nat) \<and> (of_char d :: nat) < 192) cs)"
| "js_first (JObj kvs) = js_get (JObj kvs) ''0''"
| "js_first v = JUndefined"

definition overdueConfig :: "host \<Rightarrow> jsval \<Rightarrow> error + jsval" where
  "overdueConfig h data =
     (let overdueItems = js_or (js_get data ''items'') (JArr [data])
      in case (case js_gt h (js_get overdueItems ''length'') 1 of
                 Inl e \<Rightarrow> Inl e
               | Inr several \<Rightarrow>
                   if several
                   then (case template [Inr overdue_count_open,
                                        toString h (js_get overdueItems ''length''),
                                        Inr overdue_count_close] of
                           Inl e \<Rightarrow> Inl e
                         | Inr s \<Rightarrow> Inr (JStr s))
                   else Inr (js_or (js_get_opt (js_first overdueItems) ''content'')
                                   (js_get_opt (js_first overdueItems) ''message''))) of
           Inl e \<Rightarrow> Inl e
         | Inr content \<Rightarrow>
             Inr (JObj [(''type'', JStr ''overdue''),
                        (''priority'', JStr ''high''),
                        (''title'', JStr overdue_title),
                        (''content'', content),
                        (''items'', overdueItems),
                        (''agentName'', js_get data ''agentName''),
                        (''todoId'', js_get data ''todoId'')]))"

definition showOverdueAlert :: "host \<Rightarrow> world \<Rightarrow> jsval \<Rightarrow> error + world" where
  "showOverdueAlert h w data =
     (case overdueConfig h data of
        Inl e \<Rightarrow> Inl e
      | Inr config \<Rightarrow>
          (case createReminderElement h config of
             Inl e \<Rightarrow> Inl e
           | Inr reminder \<Rightarrow> displayReminder h w reminder data))"

subsection \<open>\<^verbatim>\<open>showDailySummary\<close> (lines 100--120)\<close>

definition summaryConfig :: "jsval \<Rightarrow> jsval" where
  "summaryConfig data =
     (let summaryData = js_or (js_get data ''summary'') (JObj []);
          items = js_or (js_get data ''items'') (JArr [])
      in JObj [(''type'', JStr ''daily_summary''),
               (''priority'', JStr ''normal''),
               (''title'', JStr summary_title),
               (''summary'',
                  JObj [(''total'', js_or (js_get summaryData ''total'') (js_get items ''length'')),
                        (''completed'', js_or (js_get summaryData ''completed'') (JNum 0)),
                        (''pending'', js_or (js_get summaryData ''pending'') (js_get items ''length'')),
                        (''overdue'', js_or (js_get summaryData ''overdue'') (JNum 0))]),
               (''items'', items),
               (''agentName'', js_get data ''agentName''),
               (''todoId'', js_get data ''todoId'')])"

definition showDailySummary :: "host \<Rightarrow> world \<Rightarrow> jsval \<Rightarrow> error + world" where
  "showDailySummary h w data =
     (case createReminderElement h (summaryConfig data) of
        Inl e \<Rightarrow> Inl e
      | Inr reminder \<Rightarrow> displayReminder h w reminder data)"

subsection \<open>\<^verbatim>\<open>handleTodoReminder\<close> (lines 34--56)\<close>

text \<open>
  \<open>Inl\<close> is an exception that leaves the handler.  Every exception of this module is
  thrown while the popup is built or at \<^verbatim>\<open>appendChild\<close>, before the first effect, so
  the world it leaves behind is the one it found.
\<close>

definition handleTodoReminder :: "host \<Rightarrow> world \<Rightarrow> jsval \<Rightarrow> error + world" where
  "handleTodoReminder h w data =
     (if \<not> truthy data \<or> js_get data ''type'' \<noteq> JStr ''TODO_REMINDER'' then Inr w
      else
        (case (if js_get data ''reminderType'' = JStr ''daily_summary''
                 then showDailySummary h w data
               else if js_get data ''reminderType'' = JStr ''overdue''
                 then showOverdueAlert h w data
               else if js_get data ''reminderType'' = JStr ''normal''
                 then showNormalReminder h w data
               else Inr (w\<lparr>effects := effects w
                            @ [ConsoleWarn unknown_kind_warning (js_get data ''reminderType'')]\<rparr>))
         of
           Inl e \<Rightarrow> Inl e
         | Inr w' \<Rightarrow> Inr (playSound w' (js_or (js_get data ''priority'') (JStr ''normal'')))))"

section \<open>A page to run the manager on\<close>

text \<open>
  A host whose clock reads 1700000000000 at both places (of the strings it is asked to
  convert to a number it knows the empty one), and the manager as its constructor leaves
  it on a page that has the container element and an audio context.
\<close>

definition demoHost :: host where
  "demoHost = \<lparr> timeText = (\<lambda>t. ''soon''), stringToNumber = (\<lambda>s. if s = [] then Some 0 else None),
                 numberText = (\<lambda>i. ''1e+21''),
                 nowOnCreate = 1700000000000, nowOnDisplay = 1700000000000 \<rparr>"

definition freshWorld :: world where
  "freshWorld = \<lparr> container = Some [], audioContext = True, activeReminders = [],
                   effects = [] \<rparr>"

section \<open>Reading a run\<close>

text \<open>The configuration object the handler builds for a payload, by its kind.\<close>

definition configOf :: "host \<Rightarrow> jsval \<Rightarrow> error + jsval" where
  "configOf h data =
     (if js_get data ''reminderType'' = JStr ''daily_summary'' then Inr (summaryConfig data)
      else if js_get data ''reminderType'' = JStr ''overdue'' then overdueConfig h data
      else Inr (normalConfig data))"

text \<open>The overdue count a payload carries in its summary, 0 when it carries none.\<close>

definition overdueField :: "jsval \<Rightarrow> jsval" where
  "overdueField data =
     js_or (js_get (js_or (js_get data ''summary'') (JObj [])) ''overdue'') (JNum 0)"

text \<open>The tones of the \<open>Beep\<close> events of a trace, in order.\<close>

fun beeps :: "event list \<Rightarrow> tone list list" where
  "beeps [] = []"
| "beeps (Beep ts # es) = ts # beeps es"
| "beeps (e # es) = beeps es"

datatype effectKind = Render | Animate | Store | Warn | Sound

fun kindOf :: "event \<Rightarrow> effectKind" where
  "kindOf (AppendChild el) = Render"
| "kindOf (RequestAnimationFrame shake) = Animate"
| "kindOf (MapSet k) = Store"
| "kindOf (ConsoleWarn label v) = Warn"
| "kindOf (Beep ts) = Sound"

section \<open>What the specification describes and the module does not hold\<close>

text \<open>
  The overdue count of a daily summary as section 4.2 of the specification words it:
  among the items not marked completed, those without a deadline and those whose
  deadline (a time stamp in ms) is strictly before now.  The module has no such count;
  \<open>specOverdueCount\<close> is what the specification asks for, to compare with.
\<close>

definition markedCompleted :: "jsval \<Rightarrow> bool" where
  "markedCompleted item =
     (truthy (js_get item ''completed'') \<or> js_get item ''status'' = JStr ''completed'')"

definition specOverdue :: "int \<Rightarrow> jsval \<Rightarrow> bool" where
  "specOverdue now item =
     (\<not> markedCompleted item \<and>
      (case js_get item ''deadline'' of
         JUndefined \<Rightarrow> True | JNull \<Rightarrow> True | JNum d \<Rightarrow> d < now | _ \<Rightarrow> False))"

definition specOverdueCount :: "int \<Rightarrow> jsval list \<Rightarrow> nat" where
  "specOverdueCount now items = length (filter (specOverdue now) items)"

subsection \<open>The history ledger\<close>

text \<open>
  No source file of the repository at hand holds a history ledger: nothing appends to a
  history or trims one.  The definitions of this subsection follow sections 3 and 4.5 of
  the specification instead.
\<close>

text \<open>
  Modelled from the spec: the history entry (section 3), with the fields the cap reads
  or that tell two entries apart; the snapshots of title and content are left out.
\<close>

datatype action = Completed | Snoozed | Dismissed

record historyEntry =
  entryId :: string
  action :: action
  reminderId :: string
  timestamp :: int

text \<open>Modelled from the spec: the cap of the history ledger, 1000 entries (section 3).\<close>

definition historyCap :: nat where
  "historyCap = 1000"

text \<open>
  Modelled from the spec: the \<open>n\<close> most recent entries by time stamp (section 4.5),
  oldest first; the code that selects them is missing.  Entries with equal time stamps
  keep the order they had.
\<close>

definition mostRecent :: "nat \<Rightarrow> historyEntry list \<Rightarrow> historyEntry list" where
  "mostRecent n es = drop (length es - n) (sort_key timestamp es)"

text \<open>
  Modelled from the spec: the append of the history ledger (section 4.5), whose code is
  missing.  The entry is added at the end; whenever the size then exceeds the cap, only
  the 1000 most recent entries by time stamp are retained.
\<close>

definition appendHistory :: "historyEntry list \<Rightarrow> historyEntry \<Rightarrow> historyEntry list" where
  "appendHistory ledger e =
     (let l = ledger @ [e]
      in if historyCap < length l then mostRecent historyCap l else l)"

section \<open>Example payloads\<close>

text \<open>Scenario A of the specification.\<close>

definition scenarioA :: jsval where
  "scenarioA =
     JObj [(''version'', JStr ''2.0''), (''type'', JStr ''TODO_REMINDER''),
           (''reminderType'', JStr ''overdue''), (''priority'', JStr ''medium''),
           (''data'', JObj [(''title'', JStr ''Pay invoice''),
                            (''deadline'', JNum 1700000000000)]),
           (''metadata'', JObj [(''agentName'', JStr ''Billing'')])]"

definition summaryOfThree :: jsval where
  "summaryOfThree =
     JObj [(''type'', JStr ''TODO_REMINDER''), (''reminderType'', JStr ''daily_summary''),
           (''priority'', JStr ''high''),
           (''summary'', JObj [(''total'', JNum 3), (''overdue'', JNum 2)]),
           (''items'', JArr [JObj [(''content'', JStr ''Write report''),
                                   (''priority'', JStr ''high'')],
                             JObj [(''title'', JStr ''Call Bob'')],
                             JObj [(''message'', JStr ''Pay invoice'')]])]"

definition messageOnly :: jsval where
  "messageOnly =
     JObj [(''type'', JStr ''TODO_REMINDER''), (''reminderType'', JStr ''normal''),
           (''message'', JStr ''Buy milk'')]"

definition titleOnly :: jsval where
  "titleOnly =
     JObj [(''type'', JStr ''TODO_REMINDER''), (''reminderType'', JStr ''normal''),
           (''title'', JStr ''Pay invoice''), (''description'', JStr ''Due on Friday''),
           (''text'', JStr ''Invoice 17'')]"

definition standUp :: jsval where
  "standUp =
     JObj [(''type'', JStr ''TODO_REMINDER''), (''reminderType'', JStr ''normal''),
           (''priority'', JStr ''medium''), (''todoId'', JStr ''todo-42''),
           (''title'', JStr ''Stand-up''), (''content'', JStr ''Daily stand-up at 10'')]"

definition nullItems :: jsval where
  "nullItems =
     JObj [(''type'', JStr ''TODO_REMINDER''), (''reminderType'', JStr ''overdue''),
           (''items'', JArr [JNull, JNull])]"

definition unknownKind :: jsval where
  "unknownKind =
     JObj [(''type'', JStr ''TODO_REMINDER''), (''reminderType'', JStr ''weekly_digest''),
           (''content'', JStr ''Review the week'')]"

definition unknownType :: jsval where
  "unknownType = JObj [(''type'', JStr ''NOTE''), (''content'', JStr ''Review the week'')]"

definition openItems :: "jsval list" where
  "openItems =
     [JObj [(''title'', JStr ''File taxes'')],
      JObj [(''title'', JStr ''Renew passport''), (''deadline'', JNum 1600000000000)],
      JObj [(''title'', JStr ''Book flights''), (''deadline'', JNum 1600000000000),
            (''completed'', JBool True)]]"

definition openSummary :: jsval where
  "openSummary =
     JObj [(''type'', JStr ''TODO_REMINDER''), (''reminderType'', JStr ''daily_summary''),
           (''items'', JArr openItems)]"

definition markupInPriority :: jsval where
  \<open>markupInPriority =
     JObj [(''type'', JStr ''TODO_REMINDER''), (''reminderType'', JStr ''daily_summary''),
           (''items'', JArr [JObj [(''priority'', JStr ''"><img src=x onerror=alert(1)>''),
                                   (''content'', JStr ''hello'')]])]\<close>

definition ownToString :: jsval where
  "ownToString =
     JObj [(''type'', JStr ''TODO_REMINDER''), (''reminderType'', JStr ''daily_summary''),
           (''items'', JArr [JObj [(''content'', JObj [(''toString'', JStr ''x'')])]])]"

definition sevenItems :: "jsval list" where
  "sevenItems = map (\<lambda>t. JObj [(''title'', JStr t)])
     [''one'', ''two'', ''three'', ''four'', ''five'', ''six'', ''seven'']"

definition sevenOf :: "string \<Rightarrow> jsval" where
  "sevenOf k =
     JObj [(''type'', JStr ''TODO_REMINDER''), (''reminderType'', JStr k),
           (''items'', JArr sevenItems)]"

definition oldEntry :: historyEntry where
  "oldEntry = \<lparr> entryId = ''h-1'', action = Dismissed, reminderId = ''todo-1'', timestamp = 1 \<rparr>"

definition newEntry :: historyEntry where
  "newEntry = \<lparr> entryId = ''h-2'', action = Completed, reminderId = ''todo-2'', timestamp = 2 \<rparr>"

section \<open>How a reminder is handled\<close>

lemma error_is_TypeError: "(e :: error) = TypeError"
  by (cases e)

lemma template_Cons_iff:
  "template (p # ps) = Inr t \<longleftrightarrow> (\<exists>s u. p = Inr s \<and> template ps = Inr u \<and> t = s @ u)"
  by (cases p) (auto split: sum.splits)

lemma template_Nil_iff: "template [] = Inr t \<longleftrightarrow> t = []"
  by auto

lemma template_literals: "template (map Inr ss) = Inr (concat ss)"
  by (induction ss) simp_all

lemma toString_primitive [simp]:
  "toString h (JStr s) = Inr s"
  "toString h (JNum n) = Inr (show_int h n)"
  "toString h JUndefined = Inr ''undefined''"
  by (simp_all add: toString_def)

lemma js_gt_number [simp]: "js_gt h (JNum n) k = Inr (k < n)"
  by (simp add: js_gt_def)

lemma longer_than_list [simp]: "longer_than h (JArr xs) k = Inr (k < int (length xs))"
  by (simp add: longer_than_def)

lemma show_small:
  "show_int h 0 = ''0''" "show_int h 1 = ''1''" "show_int h 2 = ''2''"
  "show_int h 3 = ''3''" "show_int h 4 = ''4''"
  by (simp_all add: show_int_def digits.simps)

lemma typed_truthy: "js_get data ''type'' = JStr s \<Longrightarrow> truthy data"
  by (cases data) (auto split: if_splits)

lemma createReminderElement_Inr:
  "createReminderElement h cfg = Inr el \<longleftrightarrow>
     (\<exists>p t tid header body actions.
        toString h (js_get cfg ''priority'') = Inr p
        \<and> toString h (js_get cfg ''type'') = Inr t
        \<and> toString h (js_or (js_get cfg ''todoId'') (JNum (nowOnCreate h))) = Inr tid
        \<and> popupHeader h cfg = Inr header
        \<and> popupBody h cfg = Inr body
        \<and> popupActions h cfg = Inr actions
        \<and> el = \<lparr> className = ''todo-reminder-popup priority-'' @ p @ '' type-'' @ t,
                    dataTodoId = tid,
                    innerHTML = header @ body @ body_close @ actions \<rparr>)"
  by (auto simp: createReminderElement_def template_Cons_iff split: sum.splits)

lemma displayReminder_Inr:
  "displayReminder h w el data = Inr w' \<longleftrightarrow>
     (\<exists>children. container w = Some children \<and>
        w' = w\<lparr>container := Some (children @ [el]),
               activeReminders := map_set (activeReminders w)
                  (js_or (js_get data ''todoId'') (JNum (nowOnDisplay h))) (el, data),
               effects := effects w
                  @ [AppendChild el,
                     RequestAnimationFrame (js_get data ''priority'' = JStr ''high''),
                     MapSet (js_or (js_get data ''todoId'') (JNum (nowOnDisplay h)))]\<rparr>)"
  by (auto simp: displayReminder_def Let_def split: option.splits)

text \<open>The three recognised kinds share one path: build the popup, display it, play.\<close>

lemma handle_recognized:
  assumes "js_get data ''type'' = JStr ''TODO_REMINDER''"
      and "js_get data ''reminderType'' \<in> {JStr ''daily_summary'', JStr ''overdue'', JStr ''normal''}"
  shows "handleTodoReminder h w data =
           (case configOf h data of
              Inl e \<Rightarrow> Inl e
            | Inr cfg \<Rightarrow>
                (case createReminderElement h cfg of
                   Inl e \<Rightarrow> Inl e
                 | Inr el \<Rightarrow>
                     (case displayReminder h w el data of
                        Inl e \<Rightarrow> Inl e
                      | Inr w' \<Rightarrow>
                          Inr (playSound w' (js_or (js_get data ''priority'') (JStr ''normal''))))))"
  using assms typed_truthy[OF assms(1)]
  by (auto simp: handleTodoReminder_def configOf_def showDailySummary_def showOverdueAlert_def
        showNormalReminder_def split: sum.splits)

lemma handle_unrecognized:
  assumes "js_get data ''type'' = JStr ''TODO_REMINDER''"
      and "js_get data ''reminderType'' \<notin> {JStr ''daily_summary'', JStr ''overdue'', JStr ''normal''}"
  shows "handleTodoReminder h w data =
           Inr (playSound (w\<lparr>effects := effects w
                   @ [ConsoleWarn unknown_kind_warning (js_get data ''reminderType'')]\<rparr>)
                 (js_or (js_get data ''priority'') (JStr ''normal'')))"
  using assms typed_truthy[OF assms(1)]
  by (auto simp: handleTodoReminder_def)

lemma handle_recognized_Inr:
  assumes "js_get data ''type'' = JStr ''TODO_REMINDER''"
      and "js_get data ''reminderType'' \<in> {JStr ''daily_summary'', JStr ''overdue'', JStr ''normal''}"
      and "handleTodoReminder h w data = Inr w'"
  obtains cfg el w1 where "configOf h data = Inr cfg"
      and "createReminderElement h cfg = Inr el"
      and "displayReminder h w el data = Inr w1"
      and "w' = playSound w1 (js_or (js_get data ''priority'') (JStr ''normal''))"
  using assms(3) unfolding handle_recognized[OF assms(1,2)]
  by (auto split: sum.splits)

lemma handle_returns:
  assumes "js_get data ''type'' = JStr ''TODO_REMINDER''"
      and "js_get data ''reminderType'' \<in> {JStr ''daily_summary'', JStr ''overdue'', JStr ''normal''}"
      and "configOf h data = Inr cfg"
      and "createReminderElement h cfg = Inr el"
      and "container w = Some children"
  shows "\<exists>w'. handleTodoReminder h w data = Inr w'"
  using assms(3,4,5)
  by (simp add: handle_recognized[OF assms(1,2)] displayReminder_def Let_def)

lemma overdueConfig_fields:
  "overdueConfig h data = Inr cfg \<Longrightarrow>
     js_get cfg ''priority'' = JStr ''high'' \<and> js_get cfg ''type'' = JStr ''overdue''"
  by (auto simp: overdueConfig_def Let_def split: sum.splits)

lemma config_fields [simp]:
  "js_get (summaryConfig data) ''priority'' = JStr ''normal''"
  "js_get (summaryConfig data) ''type'' = JStr ''daily_summary''"
  "js_get (normalConfig data) ''type'' = JStr ''normal''"
  by (simp_all add: summaryConfig_def normalConfig_def Let_def)

lemma popupHeader_icon:
  "popupHeader h cfg = Inr header \<Longrightarrow>
     \<exists>rest. header = header_open @ getPriorityIcon (js_get cfg ''priority'') @ rest"
  unfolding popupHeader_def by (auto split: sum.splits)

lemma playSound_fields [simp]:
  "container (playSound w p) = container w"
  "activeReminders (playSound w p) = activeReminders w"
  "audioContext (playSound w p) = audioContext w"
  by (simp_all add: playSound_def)

lemma playSound_effects:
  "effects (playSound w p) = effects w @ (if audioContext w then [Beep (toneProfile p)] else [])"
  by (simp add: playSound_def)

lemma beeps_append: "beeps (es @ fs) = beeps es @ beeps fs"
  by (induction es rule: beeps.induct) simp_all

lemma example_fields:
  "js_get scenarioA ''type'' = JStr ''TODO_REMINDER''"
  "js_get scenarioA ''reminderType'' = JStr ''overdue''"
  "js_get summaryOfThree ''type'' = JStr ''TODO_REMINDER''"
  "js_get summaryOfThree ''reminderType'' = JStr ''daily_summary''"
  "js_get messageOnly ''type'' = JStr ''TODO_REMINDER''"
  "js_get messageOnly ''reminderType'' = JStr ''normal''"
  "js_get standUp ''type'' = JStr ''TODO_REMINDER''"
  "js_get standUp ''reminderType'' = JStr ''normal''"
  "js_get unknownKind ''type'' = JStr ''TODO_REMINDER''"
  "js_get unknownKind ''reminderType'' = JStr ''weekly_digest''"
  "container freshWorld = Some []"
  "audioContext freshWorld"
  "effects freshWorld = []"
  "activeReminders freshWorld = []"
  by (simp_all add: scenarioA_def summaryOfThree_def messageOnly_def standUp_def
        unknownKind_def freshWorld_def)

lemma titles_nonempty [simp]:
  "overdue_title \<noteq> []" "summary_title \<noteq> []" "default_title \<noteq> []"
  by (simp_all add: overdue_title_def summary_title_def default_title_def)

lemmas render_defs =
  popupBody_def popupHeader_def popupActions_def renderNormalContent_def
  renderDailySummary_def renderOverdueList_def summaryStats_def summaryItemHtml_def
  overdueItemHtml_def tagHtml_def escapeHtml_def escapeChar_def formatTime_def
  createReminderElement_def Let_def js_or_def js_get_opt_def longer_than_def js_gt_def
  toString_def

lemma scenarioA_popup:
  "\<exists>cfg el. configOf demoHost scenarioA = Inr cfg \<and> createReminderElement demoHost cfg = Inr el"
  by (simp add: scenarioA_def configOf_def overdueConfig_def render_defs)

lemma summaryOfThree_popup:
  "\<exists>el. configOf demoHost summaryOfThree = Inr (summaryConfig summaryOfThree)
     \<and> createReminderElement demoHost (summaryConfig summaryOfThree) = Inr el"
  by (simp add: summaryOfThree_def configOf_def summaryConfig_def render_defs)

lemma messageOnly_body:
  "popupBody demoHost (normalConfig messageOnly)
   = Inr (content_open @ ''Buy milk'' @ content_close)"
  by (simp add: messageOnly_def normalConfig_def render_defs)

lemma messageOnly_popup:
  "\<exists>el. configOf demoHost messageOnly = Inr (normalConfig messageOnly)
     \<and> createReminderElement demoHost (normalConfig messageOnly) = Inr el"
  by (simp add: messageOnly_def configOf_def normalConfig_def render_defs)

lemma standUp_popup:
  "\<exists>el. configOf demoHost standUp = Inr (normalConfig standUp)
     \<and> createReminderElement demoHost (normalConfig standUp) = Inr el"
  by (simp add: standUp_def configOf_def normalConfig_def render_defs)

section \<open>Priority by kind\<close>

text \<open>
  C1.  For every inbound reminder of kind overdue that is displayed, the popup carries
  the priority high, whatever priority the payload carries: its class is
  \<^verbatim>\<open>priority-high\<close> and its header opens with the icon of a high priority.  For every
  daily summary that is displayed, the popup carries the priority normal
  (\<^verbatim>\<open>priority-normal\<close>, the default icon), whatever counts the summary holds.
\<close>

theorem kind_forces_priority:
  assumes "js_get data ''type'' = JStr ''TODO_REMINDER''"
      and "handleTodoReminder h w data = Inr w'"
  shows "(js_get data ''reminderType'' = JStr ''overdue'' \<longrightarrow>
            (\<exists>children el rest. container w = Some children
               \<and> container w' = Some (children @ [el])
               \<and> className el = ''todo-reminder-popup priority-high type-overdue''
               \<and> innerHTML el = header_open @ icon_high @ rest))
       \<and> (js_get data ''reminderType'' = JStr ''daily_summary'' \<longrightarrow>
            (\<exists>children el rest. container w = Some children
               \<and> container w' = Some (children @ [el])
               \<and> className el = ''todo-reminder-popup priority-normal type-daily_summary''
               \<and> innerHTML el = header_open @ icon_default @ rest))"
proof (intro conjI impI)
  assume k: "js_get data ''reminderType'' = JStr ''overdue''"
  then have "js_get data ''reminderType''
      \<in> {JStr ''daily_summary'', JStr ''overdue'', JStr ''normal''}"
    by simp
  from handle_recognized_Inr[OF assms(1) this assms(2)]
  obtain cfg el w1 where c0: "configOf h data = Inr cfg"
    and el: "createReminderElement h cfg = Inr el"
    and d: "displayReminder h w el data = Inr w1"
    and w': "w' = playSound w1 (js_or (js_get data ''priority'') (JStr ''normal''))"
    by blast
  from c0 k have cfg: "overdueConfig h data = Inr cfg"
    by (simp add: configOf_def)
  from d obtain children where c: "container w = Some children"
    "container w1 = Some (children @ [el])"
    by (auto simp: displayReminder_Inr)
  note f = overdueConfig_fields[OF cfg]
  from el obtain header body actions where
    cls: "className el = ''todo-reminder-popup priority-high type-overdue''"
    and hd: "popupHeader h cfg = Inr header"
    and html: "innerHTML el = header @ body @ body_close @ actions"
    using f by (auto simp: createReminderElement_Inr)
  from popupHeader_icon[OF hd] f obtain rest where "header = header_open @ icon_high @ rest"
    by (auto simp: getPriorityIcon_def)
  with html have "innerHTML el = header_open @ icon_high @ (rest @ body @ body_close @ actions)"
    by simp
  with c w' cls show "\<exists>children el rest. container w = Some children
       \<and> container w' = Some (children @ [el])
       \<and> className el = ''todo-reminder-popup priority-high type-overdue''
       \<and> innerHTML el = header_open @ icon_high @ rest"
    by auto
next
  assume k: "js_get data ''reminderType'' = JStr ''daily_summary''"
  then have "js_get data ''reminderType''
      \<in> {JStr ''daily_summary'', JStr ''overdue'', JStr ''normal''}"
    by simp
  from handle_recognized_Inr[OF assms(1) this assms(2)]
  obtain cfg el w1 where c0: "configOf h data = Inr cfg"
    and el0: "createReminderElement h cfg = Inr el"
    and d: "displayReminder h w el data = Inr w1"
    and w': "w' = playSound w1 (js_or (js_get data ''priority'') (JStr ''normal''))"
    by blast
  from c0 k el0 have el: "createReminderElement h (summaryConfig data) = Inr el"
    by (auto simp: configOf_def)
  from d obtain children where c: "container w = Some children"
    "container w1 = Some (children @ [el])"
    by (auto simp: displayReminder_Inr)
  from el obtain header body actions where
    cls: "className el = ''todo-reminder-popup priority-normal type-daily_summary''"
    and hd: "popupHeader h (summaryConfig data) = Inr header"
    and html: "innerHTML el = header @ body @ body_close @ actions"
    by (auto simp: createReminderElement_Inr)
  from popupHeader_icon[OF hd] obtain rest where "header = header_open @ icon_default @ rest"
    by (auto simp: getPriorityIcon_def)
  with html have "innerHTML el = header_open @ icon_default @ (rest @ body @ body_close @ actions)"
    by simp
  with c w' cls show "\<exists>children el rest. container w = Some children
       \<and> container w' = Some (children @ [el])
       \<and> className el = ''todo-reminder-popup priority-normal type-daily_summary''
       \<and> innerHTML el = header_open @ icon_default @ rest"
    by auto
qed

text \<open>
  Scenario A (an overdue reminder that carries the priority medium) and a daily summary
  that reports two overdue items and carries the priority high.
\<close>

theorem kind_forces_priority_witness:
  "(\<exists>el rest. container (projr (handleTodoReminder demoHost freshWorld scenarioA)) = Some [el]
       \<and> className el = ''todo-reminder-popup priority-high type-overdue''
       \<and> innerHTML el = header_open @ icon_high @ rest)
   \<and> (\<exists>el rest. container (projr (handleTodoReminder demoHost freshWorld summaryOfThree)) = Some [el]
       \<and> className el = ''todo-reminder-popup priority-normal type-daily_summary''
       \<and> innerHTML el = header_open @ icon_default @ rest)"
proof -
  note f = example_fields
  obtain wA where wA: "handleTodoReminder demoHost freshWorld scenarioA = Inr wA"
    using handle_returns[OF f(1) _ _ _ f(11)] f(2) scenarioA_popup by blast
  obtain wS where wS: "handleTodoReminder demoHost freshWorld summaryOfThree = Inr wS"
    using handle_returns[OF f(3) _ _ _ f(11)] f(4) summaryOfThree_popup by blast
  from kind_forces_priority[OF f(1) wA] kind_forces_priority[OF f(3) wS] f(2,4,11) wA wS
  show ?thesis by auto
qed

section \<open>The body of a normal reminder\<close>

lemma template_prefix:
  "template (Inr s # ps) = Inr t \<Longrightarrow> prefix s t"
  by (auto split: sum.splits)

lemma renderNormalContent_Inr:
  assumes "renderNormalContent h c t tags = Inr body"
  shows "\<exists>html. template
             [if truthy c
              then template [Inr content_open, escapeHtml h c, Inr content_close]
              else Inr [],
              if truthy t
              then template [Inr time_open, formatTime h t, Inr time_close]
              else Inr []] = Inr html \<and> prefix html body"
proof -
  let ?T = "template
             [if truthy c
              then template [Inr content_open, escapeHtml h c, Inr content_close]
              else Inr [],
              if truthy t
              then template [Inr time_open, formatTime h t, Inr time_close]
              else Inr []]"
  from assms obtain html where html: "?T = Inr html"
    unfolding renderNormalContent_def by (cases ?T) simp_all
  from assms html have "(case longer_than h tags 0 of
             Inl e \<Rightarrow> Inl e
           | Inr some \<Rightarrow>
               if some then
                 (case tags of
                    JArr ts \<Rightarrow>
                      template [Inr html, Inr tags_open, template (map (tagHtml h) ts),
                                Inr tags_close]
                  | _ \<Rightarrow> Inl TypeError)
               else Inr html) = Inr body"
    unfolding renderNormalContent_def by simp
  then have "prefix html body"
    by (cases tags) (auto split: sum.splits if_splits)
  with html show ?thesis by blast
qed

lemma renderNormalContent_content:
  assumes "truthy c" and "renderNormalContent h c t tags = Inr body"
  shows "\<exists>para. escapeHtml h c = Inr para
           \<and> prefix (content_open @ para @ content_close) body"
proof -
  from renderNormalContent_Inr[OF assms(2)] assms(1) obtain html rest where
    html: "template [Inr content_open, escapeHtml h c, Inr content_close] = Inr html"
    and body: "prefix (html @ rest) body"
    by (auto simp: template_Cons_iff simp del: template.simps)
  from html obtain para where "escapeHtml h c = Inr para"
    and "html = content_open @ para @ content_close"
    by (cases "escapeHtml h c") simp_all
  moreover from body have "prefix html body"
    by (rule append_prefixD)
  ultimately show ?thesis
    by simp
qed

lemma content_open_nonempty: "content_open \<noteq> []"
  by (simp add: content_open_def)

text \<open>
  C2, as the module has it.  The content of a normal reminder is the payload's
  \<^verbatim>\<open>content\<close> when that is truthy and its \<^verbatim>\<open>message\<close> otherwise; no other field
  (description, text, title) is consulted.  Whenever one of the two is truthy, the body
  of the displayed popup is not empty: it opens with the escaped content in a paragraph.
\<close>

theorem normal_content_fallback:
  assumes "js_get data ''type'' = JStr ''TODO_REMINDER''"
      and "js_get data ''reminderType'' = JStr ''normal''"
      and "handleTodoReminder h w data = Inr w'"
  shows "\<exists>children el header body actions.
           container w = Some children \<and> container w' = Some (children @ [el])
           \<and> popupHeader h (normalConfig data) = Inr header
           \<and> popupBody h (normalConfig data) = Inr body
           \<and> popupActions h (normalConfig data) = Inr actions
           \<and> innerHTML el = header @ body @ body_close @ actions
           \<and> js_get (normalConfig data) ''content''
               = js_or (js_get data ''content'') (js_get data ''message'')
           \<and> (truthy (js_get data ''content'') \<or> truthy (js_get data ''message'') \<longrightarrow>
                body \<noteq> []
                \<and> (\<exists>text.
                      escapeHtml h (js_or (js_get data ''content'') (js_get data ''message''))
                        = Inr text
                      \<and> prefix (content_open @ text @ content_close) body))"
proof -
  have "js_get data ''reminderType''
      \<in> {JStr ''daily_summary'', JStr ''overdue'', JStr ''normal''}"
    using assms(2) by simp
  from handle_recognized_Inr[OF assms(1) this assms(3)]
  obtain cfg el w1 where c0: "configOf h data = Inr cfg"
    and el0: "createReminderElement h cfg = Inr el"
    and d: "displayReminder h w el data = Inr w1"
    and w': "w' = playSound w1 (js_or (js_get data ''priority'') (JStr ''normal''))"
    by blast
  from c0 el0 assms(2) have el: "createReminderElement h (normalConfig data) = Inr el"
    by (auto simp: configOf_def)
  from d obtain children where c: "container w = Some children"
    "container w1 = Some (children @ [el])"
    by (auto simp: displayReminder_Inr)
  from el obtain header body actions where
    hd: "popupHeader h (normalConfig data) = Inr header"
    and b: "popupBody h (normalConfig data) = Inr body"
    and ac: "popupActions h (normalConfig data) = Inr actions"
    and i: "innerHTML el = header @ body @ body_close @ actions"
    by (auto simp: createReminderElement_Inr)
  have content: "js_get (normalConfig data) ''content''
      = js_or (js_get data ''content'') (js_get data ''message'')"
    by (simp add: normalConfig_def)
  have r: "renderNormalContent h (js_or (js_get data ''content'') (js_get data ''message''))
             (js_get (normalConfig data) ''time'') (js_get (normalConfig data) ''tags'') = Inr body"
    using b content by (simp add: popupBody_def Let_def)
  have "body \<noteq> [] \<and> (\<exists>text.
          escapeHtml h (js_or (js_get data ''content'') (js_get data ''message'')) = Inr text
          \<and> prefix (content_open @ text @ content_close) body)"
    if "truthy (js_get data ''content'') \<or> truthy (js_get data ''message'')"
  proof -
    from that have "truthy (js_or (js_get data ''content'') (js_get data ''message''))"
      by (auto simp: js_or_def)
    from renderNormalContent_content[OF this r] content_open_nonempty
    show ?thesis by (auto simp: prefix_def)
  qed
  with c w' hd b ac i content show ?thesis by auto
qed

theorem normal_content_fallback_witness:
  "\<exists>el header actions.
       container (projr (handleTodoReminder demoHost freshWorld messageOnly)) = Some [el]
       \<and> popupHeader demoHost (normalConfig messageOnly) = Inr header
       \<and> popupActions demoHost (normalConfig messageOnly) = Inr actions
       \<and> innerHTML el = header @ (content_open @ ''Buy milk'' @ content_close) @ body_close
                          @ actions"
proof -
  note f = example_fields
  obtain w' where w': "handleTodoReminder demoHost freshWorld messageOnly = Inr w'"
    using handle_returns[OF f(5) _ _ _ f(11)] f(6) messageOnly_popup by blast
  from normal_content_fallback[OF f(5) f(6) w'] messageOnly_body f(11) w'
  show ?thesis by auto
qed

text \<open>
  A payload that carries a title, a description and a text, and neither content nor
  message: the content of the popup is \<^verbatim>\<open>undefined\<close> and its body is empty.
\<close>

theorem title_alone_gives_empty_body:
  "truthy (js_get titleOnly ''title'') \<and> truthy (js_get titleOnly ''description'')
   \<and> truthy (js_get titleOnly ''text'')
   \<and> js_get (normalConfig titleOnly) ''content'' = JUndefined
   \<and> popupBody demoHost (normalConfig titleOnly) = Inr []"
  by (simp add: titleOnly_def normalConfig_def render_defs)

section \<open>One sound for one reminder\<close>

lemma display_beeps:
  "displayReminder h w el data = Inr w1 \<Longrightarrow>
     beeps (effects w1) = beeps (effects w) \<and> audioContext w1 = audioContext w"
  by (auto simp: displayReminder_Inr beeps_append)

text \<open>
  C3, as the module has it.  For every payload of type \<^verbatim>\<open>TODO_REMINDER\<close> whose handling
  returns, on a page that has an audio context, exactly one sound is added to the trace:
  the tone profile of the payload's priority (of normal when it carries none), however
  many items the payload bundles.  On a page without an audio context no sound is added.
\<close>

theorem one_sound_per_reminder:
  assumes "js_get data ''type'' = JStr ''TODO_REMINDER''"
      and "handleTodoReminder h w data = Inr w'"
  shows "beeps (effects w') =
           beeps (effects w)
           @ (if audioContext w
              then [toneProfile (js_or (js_get data ''priority'') (JStr ''normal''))]
              else [])"
proof (cases "js_get data ''reminderType''
                \<in> {JStr ''daily_summary'', JStr ''overdue'', JStr ''normal''}")
  case True
  from handle_recognized_Inr[OF assms(1) True assms(2)]
  obtain cfg el w1 where d: "displayReminder h w el data = Inr w1"
    and w': "w' = playSound w1 (js_or (js_get data ''priority'') (JStr ''normal''))"
    by blast
  from display_beeps[OF d] w' show ?thesis
    by (simp add: playSound_effects beeps_append)
next
  case False
  from assms(2) show ?thesis
    unfolding handle_unrecognized[OF assms(1) False]
    by (auto simp: playSound_def beeps_append)
qed

text \<open>A daily summary of three items, priority high: one sound, the double beep.\<close>

theorem one_sound_per_reminder_witness:
  "beeps (effects (projr (handleTodoReminder demoHost freshWorld summaryOfThree)))
   = [[(800, 30, 300, 0), (900, 30, 300, 200)]]"
proof -
  note f = example_fields
  obtain w' where w': "handleTodoReminder demoHost freshWorld summaryOfThree = Inr w'"
    using handle_returns[OF f(3) _ _ _ f(11)] f(4) summaryOfThree_popup by blast
  have "js_or (js_get summaryOfThree ''priority'') (JStr ''normal'') = JStr ''high''"
    by (simp add: summaryOfThree_def js_or_def)
  with one_sound_per_reminder[OF f(3) w'] w' f(12,13) show ?thesis
    by (simp add: toneProfile_def)
qed

lemma nullItems_config:
  "configOf demoHost nullItems
   = Inr (JObj [(''type'', JStr ''overdue''), (''priority'', JStr ''high''),
                (''title'', JStr overdue_title),
                (''content'', JStr (overdue_count_open @ ''2'' @ overdue_count_close)),
                (''items'', JArr [JNull, JNull]),
                (''agentName'', JUndefined), (''todoId'', JUndefined)])"
  by (simp add: nullItems_def configOf_def overdueConfig_def Let_def js_or_def show_small)

lemma nullItems_body:
  "popupBody demoHost
     (JObj [(''type'', JStr ''overdue''), (''priority'', JStr ''high''),
            (''title'', JStr overdue_title),
            (''content'', JStr (overdue_count_open @ ''2'' @ overdue_count_close)),
            (''items'', JArr [JNull, JNull]),
            (''agentName'', JUndefined), (''todoId'', JUndefined)]) = Inl TypeError"
  by (simp add: popupBody_def Let_def renderOverdueList_def overdueItemHtml_def)

text \<open>
  An overdue batch with \<^verbatim>\<open>null\<close> items throws before \<^verbatim>\<open>playSound\<close> is reached, and
  on a page without an audio context a well-formed reminder is displayed in silence.
\<close>

theorem reminder_without_sound:
  "handleTodoReminder demoHost freshWorld nullItems = Inl TypeError
   \<and> map_sum id (\<lambda>w. (map kindOf (effects w), beeps (effects w)))
        (handleTodoReminder demoHost (freshWorld\<lparr>audioContext := False\<rparr>) standUp)
       = Inr ([Render, Animate, Store], [])"
proof -
  note f = example_fields
  have t: "js_get nullItems ''type'' = JStr ''TODO_REMINDER''"
    and k: "js_get nullItems ''reminderType''
              \<in> {JStr ''daily_summary'', JStr ''overdue'', JStr ''normal''}"
    by (simp_all add: nullItems_def)
  have a: "handleTodoReminder demoHost freshWorld nullItems = Inl TypeError"
  proof (cases "handleTodoReminder demoHost freshWorld nullItems")
    case (Inl e)
    then show ?thesis by (simp add: error_is_TypeError[of e])
  next
    case (Inr w')
    from handle_recognized_Inr[OF t k Inr]
    obtain cfg el where "configOf demoHost nullItems = Inr cfg"
      and "createReminderElement demoHost cfg = Inr el"
      by blast
    then have "\<exists>body. popupBody demoHost cfg = Inr body"
      "cfg = JObj [(''type'', JStr ''overdue''), (''priority'', JStr ''high''),
                (''title'', JStr overdue_title),
                (''content'', JStr (overdue_count_open @ ''2'' @ overdue_count_close)),
                (''items'', JArr [JNull, JNull]),
                (''agentName'', JUndefined), (''todoId'', JUndefined)]"
      unfolding createReminderElement_Inr nullItems_config by blast+
    with nullItems_body show ?thesis
      by simp
  qed
  obtain el where el: "createReminderElement demoHost (normalConfig standUp) = Inr el"
    and c: "configOf demoHost standUp = Inr (normalConfig standUp)"
    using standUp_popup by blast
  have k': "js_get standUp ''reminderType''
              \<in> {JStr ''daily_summary'', JStr ''overdue'', JStr ''normal''}"
    using f(8) by simp
  have "handleTodoReminder demoHost (freshWorld\<lparr>audioContext := False\<rparr>) standUp
      = Inr (playSound
               (freshWorld\<lparr>audioContext := False,
                  container := Some [el],
                  activeReminders := map_set []
                    (js_or (js_get standUp ''todoId'') (JNum (nowOnDisplay demoHost)))
                    (el, standUp),
                  effects := [AppendChild el,
                     RequestAnimationFrame (js_get standUp ''priority'' = JStr ''high''),
                     MapSet (js_or (js_get standUp ''todoId'')
                               (JNum (nowOnDisplay demoHost)))]\<rparr>)
               (js_or (js_get standUp ''priority'') (JStr ''normal'')))"
    unfolding handle_recognized[OF f(7) k'] c
    by (simp add: el displayReminder_def Let_def freshWorld_def)
  then have b: "map_sum id (\<lambda>w. (map kindOf (effects w), beeps (effects w)))
        (handleTodoReminder demoHost (freshWorld\<lparr>audioContext := False\<rparr>) standUp)
       = Inr ([Render, Animate, Store], [])"
    by (simp add: playSound_def)
  from a b show ?thesis by simp
qed

section \<open>The overdue count of a daily summary\<close>

lemma summaryStats_Inr:
  assumes "summaryStats h s = Inr stats"
  shows "\<exists>total completed pending row.
           toString h (js_get s ''total'') = Inr total
           \<and> toString h (js_get s ''completed'') = Inr completed
           \<and> toString h (js_get s ''pending'') = Inr pending
           \<and> stats = stats_total @ total @ stats_completed @ completed @ stats_pending
                       @ pending @ stats_pending_close @ row @ stats_close
           \<and> (js_gt h (js_get s ''overdue'') 0 = Inr True
                \<and> (\<exists>count. toString h (js_get s ''overdue'') = Inr count
                       \<and> row = stats_overdue @ count @ stats_overdue_close)
              \<or> js_gt h (js_get s ''overdue'') 0 = Inr False \<and> row = [])"
proof -
  from assms obtain total completed pending row where
    "toString h (js_get s ''total'') = Inr total"
    "toString h (js_get s ''completed'') = Inr completed"
    "toString h (js_get s ''pending'') = Inr pending"
    and row: "(case js_gt h (js_get s ''overdue'') 0 of
           Inl e \<Rightarrow> Inl e
         | Inr positive \<Rightarrow>
             if positive
             then template [Inr stats_overdue, toString h (js_get s ''overdue''),
                            Inr stats_overdue_close]
             else Inr []) = Inr row"
    and "stats = stats_total @ total @ stats_completed @ completed @ stats_pending
                       @ pending @ stats_pending_close @ row @ stats_close"
    unfolding summaryStats_def
    by (auto simp: template_Cons_iff template_Nil_iff simp del: template.simps)
  moreover from row have "js_gt h (js_get s ''overdue'') 0 = Inr True
                \<and> (\<exists>count. toString h (js_get s ''overdue'') = Inr count
                       \<and> row = stats_overdue @ count @ stats_overdue_close)
              \<or> js_gt h (js_get s ''overdue'') 0 = Inr False \<and> row = []"
    by (cases "js_gt h (js_get s ''overdue'') 0")
       (auto simp: template_Cons_iff template_Nil_iff simp del: template.simps
          split: if_splits)
  ultimately show ?thesis by blast
qed

lemma summaryItems_grow: "summaryItems h html xs = Inr html' \<Longrightarrow> prefix html html'"
proof (induction xs arbitrary: html)
  case Nil
  then show ?case by simp
next
  case (Cons x xs)
  from Cons.prems obtain t where "summaryItems h (html @ t) xs = Inr html'"
    by (auto split: sum.splits)
  from Cons.IH[OF this] show ?case
    by (rule append_prefixD)
qed

lemma renderDailySummary_stats:
  assumes "renderDailySummary h summary items = Inr body"
  shows "\<exists>stats. summaryStats h summary = Inr stats \<and> prefix stats body"
proof -
  from assms obtain stats where s: "summaryStats h summary = Inr stats"
    unfolding renderDailySummary_def
    by (cases "summaryStats h summary") (auto split: if_splits)
  from assms s have "(case longer_than h items 0 of
                Inl e \<Rightarrow> Inl e
              | Inr some \<Rightarrow>
                  if some then
                    (case items of
                       JArr xs \<Rightarrow>
                         (case summaryItems h (stats @ summary_list_open) (take 5 xs) of
                            Inl e \<Rightarrow> Inl e
                          | Inr html \<Rightarrow>
                              Inr ((if 5 < length xs
                                    then html @ summary_more_open
                                         @ show_int h (int (length xs) - 5)
                                         @ summary_more_close
                                    else html)
                                   @ summary_list_close))
                     | _ \<Rightarrow> Inl TypeError)
                  else Inr stats) = Inr body"
    unfolding renderDailySummary_def by (simp split: if_splits)
  then have "prefix stats body"
    by (cases items)
       (auto split: sum.splits if_splits dest!: summaryItems_grow dest: append_prefixD)
  with s show ?thesis by blast
qed

lemma summary_overdue: "js_get (js_get (summaryConfig data) ''summary'') ''overdue'' = overdueField data"
  by (simp add: summaryConfig_def overdueField_def Let_def)

text \<open>
  C4, as the module has it.  The overdue count a daily summary displays is the
  \<^verbatim>\<open>overdue\<close> field of the payload's summary when that is truthy and 0 otherwise
  (\<open>overdueField\<close>, which reads nothing of the item list).  The body of the displayed
  popup opens with the statistics block: total, completed and pending, then the overdue
  row, which holds the text of that count when the count is greater than 0 and is absent
  otherwise.
\<close>

theorem overdue_count_from_summary:
  assumes "js_get data ''type'' = JStr ''TODO_REMINDER''"
      and "js_get data ''reminderType'' = JStr ''daily_summary''"
      and "handleTodoReminder h w data = Inr w'"
  shows "\<exists>children el header body actions total completed pending row rest.
           container w = Some children \<and> container w' = Some (children @ [el])
           \<and> popupBody h (summaryConfig data) = Inr body
           \<and> innerHTML el = header @ body @ body_close @ actions
           \<and> toString h (js_get (js_get (summaryConfig data) ''summary'') ''total'') = Inr total
           \<and> toString h (js_get (js_get (summaryConfig data) ''summary'') ''completed'')
               = Inr completed
           \<and> toString h (js_get (js_get (summaryConfig data) ''summary'') ''pending'')
               = Inr pending
           \<and> body = stats_total @ total @ stats_completed @ completed @ stats_pending
                      @ pending @ stats_pending_close @ row @ stats_close @ rest
           \<and> (js_gt h (overdueField data) 0 = Inr True
                \<and> (\<exists>count. toString h (overdueField data) = Inr count
                       \<and> row = stats_overdue @ count @ stats_overdue_close)
              \<or> js_gt h (overdueField data) 0 = Inr False \<and> row = [])
           \<and> (\<forall>n. overdueField data = JNum n \<longrightarrow>
                 row = (if 0 < n then stats_overdue @ show_int h n @ stats_overdue_close
                        else []))"
proof -
  have "js_get data ''reminderType''
      \<in> {JStr ''daily_summary'', JStr ''overdue'', JStr ''normal''}"
    using assms(2) by simp
  from handle_recognized_Inr[OF assms(1) this assms(3)]
  obtain cfg el w1 where c0: "configOf h data = Inr cfg"
    and el0: "createReminderElement h cfg = Inr el"
    and d: "displayReminder h w el data = Inr w1"
    and w': "w' = playSound w1 (js_or (js_get data ''priority'') (JStr ''normal''))"
    by blast
  from c0 el0 assms(2) have el: "createReminderElement h (summaryConfig data) = Inr el"
    by (auto simp: configOf_def)
  from d obtain children where c: "container w = Some children"
    "container w1 = Some (children @ [el])"
    by (auto simp: displayReminder_Inr)
  from el obtain header body actions where
    b: "popupBody h (summaryConfig data) = Inr body"
    and i: "innerHTML el = header @ body @ body_close @ actions"
    by (auto simp: createReminderElement_Inr)
  let ?s = "js_get (summaryConfig data) ''summary''"
  have "truthy ?s"
    by (simp add: summaryConfig_def Let_def)
  with b have "renderDailySummary h ?s (js_get (summaryConfig data) ''items'') = Inr body"
    by (simp add: popupBody_def Let_def)
  from renderDailySummary_stats[OF this] obtain stats rest where
    stats: "summaryStats h ?s = Inr stats" and body: "body = stats @ rest"
    by (auto simp: prefix_def)
  from summaryStats_Inr[OF stats] obtain total completed pending row where
    t: "toString h (js_get ?s ''total'') = Inr total"
    "toString h (js_get ?s ''completed'') = Inr completed"
    "toString h (js_get ?s ''pending'') = Inr pending"
    and s: "stats = stats_total @ total @ stats_completed @ completed @ stats_pending
                       @ pending @ stats_pending_close @ row @ stats_close"
    and r: "js_gt h (overdueField data) 0 = Inr True
                \<and> (\<exists>count. toString h (overdueField data) = Inr count
                       \<and> row = stats_overdue @ count @ stats_overdue_close)
              \<or> js_gt h (overdueField data) 0 = Inr False \<and> row = []"
    unfolding summary_overdue by blast
  from r have n: "\<forall>n. overdueField data = JNum n \<longrightarrow>
                 row = (if 0 < n then stats_overdue @ show_int h n @ stats_overdue_close
                        else [])"
    by auto
  from body s have "body = stats_total @ total @ stats_completed @ completed @ stats_pending
                      @ pending @ stats_pending_close @ row @ stats_close @ rest"
    by simp
  with c w' b i t r n show ?thesis
    by (intro exI conjI) (assumption | simp)+
qed

text \<open>A summary that reports two overdue items shows the row with the count 2.\<close>

theorem overdue_count_from_summary_witness:
  "\<exists>el header rest actions.
     container (projr (handleTodoReminder demoHost freshWorld summaryOfThree)) = Some [el]
     \<and> innerHTML el = header
         @ (stats_total @ ''3'' @ stats_completed @ ''0'' @ stats_pending @ ''3''
            @ stats_pending_close @ stats_overdue @ ''2'' @ stats_overdue_close
            @ stats_close @ rest)
         @ body_close @ actions"
proof -
  note f = example_fields
  obtain w' where w': "handleTodoReminder demoHost freshWorld summaryOfThree = Inr w'"
    using handle_returns[OF f(3) _ _ _ f(11)] f(4) summaryOfThree_popup by blast
  have field: "overdueField summaryOfThree = JNum 2"
    by (simp add: overdueField_def summaryOfThree_def js_or_def)
  have counts:
    "js_get (js_get (summaryConfig summaryOfThree) ''summary'') ''total'' = JNum 3"
    "js_get (js_get (summaryConfig summaryOfThree) ''summary'') ''completed'' = JNum 0"
    "js_get (js_get (summaryConfig summaryOfThree) ''summary'') ''pending'' = JNum 3"
    by (simp_all add: summaryConfig_def summaryOfThree_def Let_def js_or_def)
  from overdue_count_from_summary[OF f(3) f(4) w'] field counts f(11) w'
  obtain el header rest actions where
    "container w' = Some [el]"
    "innerHTML el = header
         @ (stats_total @ ''3'' @ stats_completed @ ''0'' @ stats_pending @ ''3''
            @ stats_pending_close @ stats_overdue @ ''2'' @ stats_overdue_close
            @ stats_close @ rest)
         @ body_close @ actions"
    by (auto simp: show_small)
  with w' show ?thesis
    by auto
qed

text \<open>
  Three items, of which one has no deadline, one a deadline in the past, and one is
  completed: the specification counts two overdue items; the popup counts none and
  shows no overdue row.
\<close>

theorem overdue_count_ignores_items:
  "specOverdueCount (nowOnDisplay demoHost) openItems = 2
   \<and> js_get openSummary ''items'' = JArr openItems
   \<and> js_get (js_get (summaryConfig openSummary) ''summary'') ''overdue'' = JNum 0
   \<and> summaryStats demoHost (js_get (summaryConfig openSummary) ''summary'')
       = Inr (stats_total @ ''3'' @ stats_completed @ ''0'' @ stats_pending @ ''3''
              @ stats_pending_close @ stats_close)"
  by (simp add: specOverdueCount_def specOverdue_def markedCompleted_def openItems_def
        openSummary_def demoHost_def summaryConfig_def Let_def js_or_def summaryStats_def
        show_small)

section \<open>Payloads of an unknown shape\<close>

text \<open>
  C5, as the module has it.  A payload whose type is not \<^verbatim>\<open>TODO_REMINDER\<close> is dropped
  without a trace.  A payload of that type whose kind is none of daily summary, overdue
  and normal gets no popup and no entry in \<^verbatim>\<open>activeReminders\<close>: the handler writes a
  warning to the console and plays the sound of the payload's priority.  In neither case
  is an exception thrown.
\<close>

theorem unknown_shape_is_not_displayed:
  "(js_get data ''type'' \<noteq> JStr ''TODO_REMINDER'' \<longrightarrow> handleTodoReminder h w data = Inr w)
   \<and> (js_get data ''type'' = JStr ''TODO_REMINDER''
        \<and> js_get data ''reminderType'' \<notin> {JStr ''daily_summary'', JStr ''overdue'', JStr ''normal''}
      \<longrightarrow> (\<exists>w'. handleTodoReminder h w data = Inr w'
             \<and> container w' = container w
             \<and> activeReminders w' = activeReminders w
             \<and> effects w' = effects w
                 @ [ConsoleWarn unknown_kind_warning (js_get data ''reminderType'')]
                 @ (if audioContext w
                    then [Beep (toneProfile (js_or (js_get data ''priority'') (JStr ''normal'')))]
                    else [])))"
proof (intro conjI impI)
  assume "js_get data ''type'' \<noteq> JStr ''TODO_REMINDER''"
  then show "handleTodoReminder h w data = Inr w"
    by (simp add: handleTodoReminder_def)
next
  assume a: "js_get data ''type'' = JStr ''TODO_REMINDER''
        \<and> js_get data ''reminderType'' \<notin> {JStr ''daily_summary'', JStr ''overdue'', JStr ''normal''}"
  then show "\<exists>w'. handleTodoReminder h w data = Inr w'
             \<and> container w' = container w
             \<and> activeReminders w' = activeReminders w
             \<and> effects w' = effects w
                 @ [ConsoleWarn unknown_kind_warning (js_get data ''reminderType'')]
                 @ (if audioContext w
                    then [Beep (toneProfile (js_or (js_get data ''priority'') (JStr ''normal'')))]
                    else [])"
    using handle_unrecognized[of data h w] by (simp add: playSound_def)
qed

theorem unknown_shape_is_not_displayed_witness:
  "handleTodoReminder demoHost freshWorld unknownType = Inr freshWorld
   \<and> (\<exists>w'. handleTodoReminder demoHost freshWorld unknownKind = Inr w'
         \<and> container w' = Some [] \<and> activeReminders w' = []
         \<and> effects w' = [ConsoleWarn unknown_kind_warning (JStr ''weekly_digest''),
                          Beep [(400, 15, 150, 0)]])"
proof -
  note f = example_fields
  have "js_get unknownType ''type'' \<noteq> JStr ''TODO_REMINDER''"
    by (simp add: unknownType_def)
  moreover have "js_or (js_get unknownKind ''priority'') (JStr ''normal'') = JStr ''normal''"
    by (simp add: unknownKind_def js_or_def)
  ultimately show ?thesis
    using unknown_shape_is_not_displayed[of unknownType demoHost freshWorld]
          unknown_shape_is_not_displayed[of unknownKind demoHost freshWorld] f(9-14)
    by (simp add: toneProfile_def)
qed

text \<open>
  Neither payload is wrapped as a normal reminder: after the first the page is as it
  was, after the second the container is still empty.
\<close>

theorem unknown_shape_is_dropped:
  "truthy (js_get unknownType ''content'') \<and> truthy (js_get unknownKind ''content'')
   \<and> handleTodoReminder demoHost freshWorld unknownType = Inr freshWorld
   \<and> map_sum id (\<lambda>w. (container w, activeReminders w, map kindOf (effects w)))
        (handleTodoReminder demoHost freshWorld unknownKind)
       = Inr (Some [], [], [Warn, Sound])"
  by (simp add: unknownType_def unknownKind_def handleTodoReminder_def freshWorld_def
        playSound_def js_or_def)

section \<open>The order of the effects\<close>

text \<open>
  C6, as the module has it.  For every reminder of a recognised kind that is displayed,
  the popup is appended to the container before the reminder is stored in
  \<^verbatim>\<open>activeReminders\<close>, and the sound is played after it is stored: the handler adds
  exactly the effects append, animation request, store and (on a page with an audio
  context) sound, in this order.
\<close>

theorem effects_in_order:
  assumes "js_get data ''type'' = JStr ''TODO_REMINDER''"
      and "js_get data ''reminderType'' \<in> {JStr ''daily_summary'', JStr ''overdue'', JStr ''normal''}"
      and "handleTodoReminder h w data = Inr w'"
  shows "\<exists>cfg el. configOf h data = Inr cfg
           \<and> createReminderElement h cfg = Inr el
           \<and> effects w' = effects w
               @ [AppendChild el,
                  RequestAnimationFrame (js_get data ''priority'' = JStr ''high''),
                  MapSet (js_or (js_get data ''todoId'') (JNum (nowOnDisplay h)))]
               @ (if audioContext w
                  then [Beep (toneProfile (js_or (js_get data ''priority'') (JStr ''normal'')))]
                  else [])
           \<and> map kindOf (effects w') = map kindOf (effects w)
               @ [Render, Animate, Store] @ (if audioContext w then [Sound] else [])"
proof -
  from handle_recognized_Inr[OF assms]
  obtain cfg el w1 where cfg: "configOf h data = Inr cfg"
    and el: "createReminderElement h cfg = Inr el"
    and d: "displayReminder h w el data = Inr w1"
    and w': "w' = playSound w1 (js_or (js_get data ''priority'') (JStr ''normal''))"
    by blast
  from d w' have "effects w' = effects w
               @ [AppendChild el,
                  RequestAnimationFrame (js_get data ''priority'' = JStr ''high''),
                  MapSet (js_or (js_get data ''todoId'') (JNum (nowOnDisplay h)))]
               @ (if audioContext w
                  then [Beep (toneProfile (js_or (js_get data ''priority'') (JStr ''normal'')))]
                  else [])"
    by (auto simp: displayReminder_Inr playSound_effects)
  with cfg el show ?thesis by auto
qed

theorem effects_in_order_witness:
  "map kindOf (effects (projr (handleTodoReminder demoHost freshWorld standUp)))
   = [Render, Animate, Store, Sound]"
proof -
  note f = example_fields
  obtain w' where w': "handleTodoReminder demoHost freshWorld standUp = Inr w'"
    using handle_returns[OF f(7) _ _ _ f(11)] f(8) standUp_popup by blast
  from effects_in_order[OF f(7) _ w'] f(8,12,13) w' show ?thesis
    by auto
qed

text \<open>The sound of a normal reminder is the last effect, after the store.\<close>

theorem sound_follows_store:
  "map_sum id (\<lambda>w. (map kindOf (effects w), map fst (activeReminders w)))
     (handleTodoReminder demoHost freshWorld standUp)
   = Inr ([Render, Animate, Store, Sound], [JStr ''todo-42''])"
proof -
  note f = example_fields
  have id: "js_or (js_get standUp ''todoId'') (JNum (nowOnDisplay demoHost)) = JStr ''todo-42''"
    by (simp add: standUp_def js_or_def)
  obtain el where el: "createReminderElement demoHost (normalConfig standUp) = Inr el"
    and c: "configOf demoHost standUp = Inr (normalConfig standUp)"
    using standUp_popup by blast
  have k: "js_get standUp ''reminderType''
             \<in> {JStr ''daily_summary'', JStr ''overdue'', JStr ''normal''}"
    using f(8) by simp
  show ?thesis
    unfolding handle_recognized[OF f(7) k] c
    by (simp add: el id displayReminder_def Let_def playSound_def freshWorld_def map_set_def)
qed

section \<open>The cap of the history ledger\<close>

lemma length_appendHistory: "length (appendHistory ledger e) \<le> historyCap"
  by (simp add: appendHistory_def mostRecent_def Let_def)

lemma length_appends:
  "length ledger \<le> historyCap \<Longrightarrow> length (foldl appendHistory ledger es) \<le> historyCap"
proof (induction es rule: rev_induct)
  case Nil
  then show ?case by simp
next
  case (snoc e es)
  then show ?case by (simp add: length_appendHistory)
qed

lemma sorted_split:
  assumes "sorted (map f s)" and "a \<in> set (take k s)" and "b \<in> set (drop k s)"
  shows "f a \<le> f b"
proof -
  have "sorted (map f (take k s) @ map f (drop k s))"
    using assms(1) by (simp flip: map_append)
  with assms(2,3) show ?thesis
    by (auto simp: sorted_append)
qed

lemma mostRecent_props:
  assumes "n \<le> length l"
  shows "length (mostRecent n l) = n"
    and "mset (mostRecent n l) \<subseteq># mset l"
    and "mset l - mset (mostRecent n l) = mset (take (length l - n) (sort_key timestamp l))"
proof -
  let ?s = "sort_key timestamp l"
  let ?k = "length l - n"
  show "length (mostRecent n l) = n"
    using assms by (simp add: mostRecent_def)
  have split: "mset l = mset (take ?k ?s) + mset (drop ?k ?s)"
    by (metis append_take_drop_id mset_append mset_sort)
  then show "mset (mostRecent n l) \<subseteq># mset l"
    by (simp add: mostRecent_def)
  from split show "mset l - mset (mostRecent n l) = mset (take ?k ?s)"
    by (simp add: mostRecent_def)
qed

text \<open>
  C7.  After any sequence of appends to an empty ledger, and after any append to any
  ledger, the ledger holds at most 1000 entries.  An append that does not exceed the cap adds the entry at the end; an append
  that would exceed it leaves exactly 1000 entries, all of them entries of the ledger
  or the new one, and every entry it evicts is no more recent than every entry it
  retains: the retained entries are the 1000 most recent by time stamp.
\<close>

theorem history_cap:
  "length (foldl appendHistory [] es) \<le> 1000
   \<and> length (appendHistory ledger e) \<le> 1000
   \<and> (length (ledger @ [e]) \<le> 1000 \<longrightarrow> appendHistory ledger e = ledger @ [e])
   \<and> (1000 < length (ledger @ [e]) \<longrightarrow>
        length (appendHistory ledger e) = 1000
        \<and> mset (appendHistory ledger e) \<subseteq># mset (ledger @ [e])
        \<and> (\<forall>kept \<in> set (appendHistory ledger e).
             \<forall>gone \<in># mset (ledger @ [e]) - mset (appendHistory ledger e).
               timestamp gone \<le> timestamp kept))"
proof (intro conjI impI)
  show "length (foldl appendHistory [] es) \<le> 1000"
    using length_appends[of "[]" es] by (simp add: historyCap_def)
next
  show "length (appendHistory ledger e) \<le> 1000"
    using length_appendHistory[of ledger e] by (simp add: historyCap_def)
next
  assume "length (ledger @ [e]) \<le> 1000"
  then show "appendHistory ledger e = ledger @ [e]"
    by (simp add: appendHistory_def historyCap_def)
next
  assume over: "1000 < length (ledger @ [e])"
  let ?l = "ledger @ [e]"
  have a: "appendHistory ledger e = mostRecent 1000 ?l"
    using over by (simp add: appendHistory_def historyCap_def)
  have n: "1000 \<le> length ?l"
    using over by simp
  show "length (appendHistory ledger e) = 1000"
    unfolding a by (rule mostRecent_props(1)[OF n])
  show "mset (appendHistory ledger e) \<subseteq># mset ?l"
    unfolding a by (rule mostRecent_props(2)[OF n])
  show "\<forall>kept \<in> set (appendHistory ledger e).
          \<forall>gone \<in># mset ?l - mset (appendHistory ledger e). timestamp gone \<le> timestamp kept"
  proof (intro ballI)
    fix kept gone
    assume k: "kept \<in> set (appendHistory ledger e)"
      and g: "gone \<in># mset ?l - mset (appendHistory ledger e)"
    from k have k': "kept \<in> set (drop (length ?l - 1000) (sort_key timestamp ?l))"
      by (simp add: a mostRecent_def)
    from g have g': "gone \<in> set (take (length ?l - 1000) (sort_key timestamp ?l))"
      unfolding a mostRecent_props(3)[OF n] by simp
    show "timestamp gone \<le> timestamp kept"
      by (rule sorted_split[OF sorted_sort_key g' k'])
  qed
qed

text \<open>A full ledger of old entries takes a newer one and stays at the cap.\<close>

theorem history_cap_witness:
  "length (appendHistory (replicate 1000 oldEntry) newEntry) = 1000
   \<and> mset (appendHistory (replicate 1000 oldEntry) newEntry)
       \<subseteq># mset (replicate 1000 oldEntry @ [newEntry])
   \<and> appendHistory [oldEntry] newEntry = [oldEntry, newEntry]"
  using history_cap[of "[]" "replicate 1000 oldEntry" newEntry]
        history_cap[of "[]" "[oldEntry]" newEntry]
  by simp

section \<open>Messages that are not reminders\<close>

text \<open>
  C8.  For every input that is \<^verbatim>\<open>null\<close> or \<^verbatim>\<open>undefined\<close>, or whose \<^verbatim>\<open>type\<close>
  field is not the string \<^verbatim>\<open>TODO_REMINDER\<close>, \<^verbatim>\<open>handleTodoReminder\<close> returns at its
  first line and changes nothing: the container has the popups it had, no effect (so no
  sound) is added, and \<^verbatim>\<open>activeReminders\<close> is the map it was.
\<close>

theorem handleTodoReminder_ignores_other_input:
  "nullish data \<or> js_get data ''type'' \<noteq> JStr ''TODO_REMINDER''
   \<Longrightarrow> handleTodoReminder h w data = Inr w"
  by (cases data) (auto simp: handleTodoReminder_def)

theorem handleTodoReminder_ignores_other_input_witness:
  "handleTodoReminder demoHost freshWorld JNull = Inr freshWorld
   \<and> handleTodoReminder demoHost freshWorld JUndefined = Inr freshWorld
   \<and> handleTodoReminder demoHost freshWorld
         (JObj [(''type'', JStr ''CHAT_MESSAGE''), (''content'', JStr ''hello'')])
       = Inr freshWorld"
  using handleTodoReminder_ignores_other_input [of JNull demoHost freshWorld]
        handleTodoReminder_ignores_other_input [of JUndefined demoHost freshWorld]
        handleTodoReminder_ignores_other_input
          [of "JObj [(''type'', JStr ''CHAT_MESSAGE''), (''content'', JStr ''hello'')]"
              demoHost freshWorld]
  by simp

section \<open>Escaping\<close>

lemma escapeHtml_of_nothing:
  "escapeHtml h JNull = Inr []" "escapeHtml h JUndefined = Inr []"
  "escapeHtml h (JStr []) = Inr []"
  by (simp_all add: escapeHtml_def)

lemma escapeText_no_markup:
  "CHR ''<'' \<notin> set (escapeText s) \<and> CHR ''>'' \<notin> set (escapeText s)"
  by (induction s rule: escapeText.induct) (auto simp: escapeChar_def)

lemma escapeHtml_no_markup:
  "escapeHtml h v = Inr s \<Longrightarrow> CHR ''<'' \<notin> set s \<and> CHR ''>'' \<notin> set s"
  using escapeText_no_markup
  by (auto simp: escapeHtml_def split: if_splits sum.splits)

text \<open>
  C9.  Title, content, tags and agent name reach the markup through \<^verbatim>\<open>escapeHtml\<close>,
  which gives the empty string for \<^verbatim>\<open>null\<close>, \<^verbatim>\<open>undefined\<close> and the empty string
  and leaves no angle bracket in its result.  The priority of an item of a daily summary
  does not: line 219 puts it into the body as it is.  Here the priority of the one item
  is a piece of markup, and the body of the popup holds it unchanged between the opening
  of the item and its icon.
\<close>

theorem item_priority_is_not_escaped:
  \<open>popupBody demoHost (summaryConfig markupInPriority)
   = Inr (stats_total @ ''1'' @ stats_completed @ ''0'' @ stats_pending @ ''1''
          @ stats_pending_close @ stats_close
          @ summary_list_open
          @ summary_item_open @ ''"><img src=x onerror=alert(1)>''
          @ summary_item_icon @ icon_default
          @ summary_item_content @ ''hello'' @ summary_item_close
          @ summary_list_close)\<close>
  by (simp add: markupInPriority_def summaryConfig_def render_defs getPriorityIcon_def
        show_small)

section \<open>Item lists are cut to a sample\<close>

lemma summaryItems_eq:
  "summaryItems h html xs = template (Inr html # map (summaryItemHtml h) xs)"
proof (induction xs arbitrary: html)
  case Nil
  then show ?case by simp
next
  case (Cons x xs)
  then show ?case
    by (cases "summaryItemHtml h x") (simp_all split: sum.splits)
qed

lemma overdueItems_eq:
  "overdueItems h html xs = template (Inr html # map (overdueItemHtml h) xs)"
proof (induction xs arbitrary: html)
  case Nil
  then show ?case by simp
next
  case (Cons x xs)
  then show ?case
    by (cases "overdueItemHtml h x") (simp_all split: sum.splits)
qed

lemma template_map_Inr:
  "template (map f xs) = Inr t \<longleftrightarrow>
     (\<exists>ts. list_all2 (\<lambda>x s. f x = Inr s) xs ts \<and> t = concat ts)"
proof (induction xs arbitrary: t)
  case Nil
  then show ?case by auto
next
  case (Cons x xs)
  show ?case
    unfolding list.map template_Cons_iff Cons.IH
    by (fastforce simp: list_all2_Cons1)
qed

lemma renderDailySummary_list:
  assumes "\<not> nullish summary"
  shows "renderDailySummary h summary (JArr xs) =
     template
       [summaryStats h summary,
        if xs = [] then Inr []
        else template
               [Inr summary_list_open,
                template (map (summaryItemHtml h) (take 5 xs)),
                Inr (if 5 < length xs
                     then summary_more_open @ show_int h (int (length xs) - 5)
                          @ summary_more_close
                     else []),
                Inr summary_list_close]]"
  using assms
  by (cases "summaryStats h summary")
     (auto simp: renderDailySummary_def summaryItems_eq split: sum.splits)

lemma renderOverdueList_list:
  "renderOverdueList h (JArr xs) =
     template
       [Inr overdue_list_open,
        template (map (overdueItemHtml h) (take 3 xs)),
        Inr (if 3 < length xs
             then overdue_more_open @ show_int h (int (length xs) - 3) @ overdue_more_close
             else []),
        Inr overdue_list_close]"
  by (auto simp: renderOverdueList_def overdueItems_eq split: sum.splits)

lemma overdueConfig_list:
  assumes "js_get data ''items'' = JArr xs"
  shows "\<exists>cfg. overdueConfig h data = Inr cfg \<and> js_get cfg ''items'' = JArr xs
           \<and> js_get cfg ''type'' = JStr ''overdue''
           \<and> js_get cfg ''time'' = JUndefined \<and> js_get cfg ''tags'' = JUndefined
           \<and> (length xs \<le> 1 \<longrightarrow>
                js_get cfg ''content''
                  = js_or (js_get_opt (js_first (JArr xs)) ''content'')
                          (js_get_opt (js_first (JArr xs)) ''message''))"
  using assms
  by (auto simp: overdueConfig_def Let_def js_or_def)

text \<open>
  C10.  For every payload whose \<^verbatim>\<open>items\<close> is a list, the body of a daily-summary popup
  is the statistics block followed, when the list is not empty, by the markup of the
  first five items in order and, exactly when the list has more than five items, by the
  line that counts the rest.  The body of an overdue popup of more than one item is the
  markup of the first three items in order followed, exactly when the list has more than
  three items, by the line that counts the rest; with at most one item it is the content
  of that item and no list.  Building either popup throws when rendering one of these
  pieces throws (an item that is \<^verbatim>\<open>null\<close>, a field that does not convert to a
  string); an item beyond the sample is never read.  So a body that is built holds the
  markup of at most five, respectively three, items.
\<close>

theorem item_lists_are_truncated:
  assumes "js_get data ''items'' = JArr xs"
  shows "popupBody h (summaryConfig data) =
           template
             [summaryStats h (js_get (summaryConfig data) ''summary''),
              if xs = [] then Inr []
              else template
                     [Inr summary_list_open,
                      template (map (summaryItemHtml h) (take 5 xs)),
                      Inr (if 5 < length xs
                           then summary_more_open @ show_int h (int (length xs) - 5)
                                @ summary_more_close
                           else []),
                      Inr summary_list_close]]
       \<and> (\<forall>body. popupBody h (summaryConfig data) = Inr body \<longrightarrow>
            (\<exists>stats ts.
               summaryStats h (js_get (summaryConfig data) ''summary'') = Inr stats
               \<and> list_all2 (\<lambda>x s. summaryItemHtml h x = Inr s) (take 5 xs) ts
               \<and> length ts = min 5 (length xs)
               \<and> body = stats
                   @ (if xs = [] then []
                      else summary_list_open @ concat ts
                           @ (if 5 < length xs
                              then summary_more_open @ show_int h (int (length xs) - 5)
                                   @ summary_more_close
                              else [])
                           @ summary_list_close)))
       \<and> (\<exists>cfg. overdueConfig h data = Inr cfg
            \<and> js_get cfg ''items'' = JArr xs
            \<and> popupBody h cfg =
                (if length xs \<le> 1
                 then renderNormalContent h
                        (js_or (js_get_opt (js_first (JArr xs)) ''content'')
                               (js_get_opt (js_first (JArr xs)) ''message''))
                        JUndefined JUndefined
                 else template
                        [Inr overdue_list_open,
                         template (map (overdueItemHtml h) (take 3 xs)),
                         Inr (if 3 < length xs
                              then overdue_more_open @ show_int h (int (length xs) - 3)
                                   @ overdue_more_close
                              else []),
                         Inr overdue_list_close])
            \<and> (1 < length xs \<longrightarrow>
                 (\<forall>body. popupBody h cfg = Inr body \<longrightarrow>
                    (\<exists>ts. list_all2 (\<lambda>x s. overdueItemHtml h x = Inr s) (take 3 xs) ts
                       \<and> length ts = min 3 (length xs)
                       \<and> body = overdue_list_open @ concat ts
                           @ (if 3 < length xs
                              then overdue_more_open @ show_int h (int (length xs) - 3)
                                   @ overdue_more_close
                              else [])
                           @ overdue_list_close))))"
proof (intro conjI)
  have items: "js_get (summaryConfig data) ''items'' = JArr xs"
    using assms by (simp add: summaryConfig_def Let_def js_or_def)
  have s: "truthy (js_get (summaryConfig data) ''summary'')"
    "\<not> nullish (js_get (summaryConfig data) ''summary'')"
    by (simp_all add: summaryConfig_def Let_def)
  have "popupBody h (summaryConfig data)
      = renderDailySummary h (js_get (summaryConfig data) ''summary'') (JArr xs)"
    using items s(1) by (simp add: popupBody_def Let_def)
  then show eq: "popupBody h (summaryConfig data) =
           template
             [summaryStats h (js_get (summaryConfig data) ''summary''),
              if xs = [] then Inr []
              else template
                     [Inr summary_list_open,
                      template (map (summaryItemHtml h) (take 5 xs)),
                      Inr (if 5 < length xs
                           then summary_more_open @ show_int h (int (length xs) - 5)
                                @ summary_more_close
                           else []),
                      Inr summary_list_close]]"
    by (simp only: renderDailySummary_list[OF s(2)])
  show "\<forall>body. popupBody h (summaryConfig data) = Inr body \<longrightarrow>
            (\<exists>stats ts.
               summaryStats h (js_get (summaryConfig data) ''summary'') = Inr stats
               \<and> list_all2 (\<lambda>x s. summaryItemHtml h x = Inr s) (take 5 xs) ts
               \<and> length ts = min 5 (length xs)
               \<and> body = stats
                   @ (if xs = [] then []
                      else summary_list_open @ concat ts
                           @ (if 5 < length xs
                              then summary_more_open @ show_int h (int (length xs) - 5)
                                   @ summary_more_close
                              else [])
                           @ summary_list_close))"
  proof (intro allI impI)
    fix body
    assume "popupBody h (summaryConfig data) = Inr body"
    then obtain stats rest where
      st: "summaryStats h (js_get (summaryConfig data) ''summary'') = Inr stats"
      and rest: "(if xs = [] then Inr []
              else template
                     [Inr summary_list_open,
                      template (map (summaryItemHtml h) (take 5 xs)),
                      Inr (if 5 < length xs
                           then summary_more_open @ show_int h (int (length xs) - 5)
                                @ summary_more_close
                           else []),
                      Inr summary_list_close]) = Inr rest"
      and body: "body = stats @ rest"
      unfolding eq by (auto simp: template_Cons_iff template_Nil_iff simp del: template.simps)
    show "\<exists>stats ts.
               summaryStats h (js_get (summaryConfig data) ''summary'') = Inr stats
               \<and> list_all2 (\<lambda>x s. summaryItemHtml h x = Inr s) (take 5 xs) ts
               \<and> length ts = min 5 (length xs)
               \<and> body = stats
                   @ (if xs = [] then []
                      else summary_list_open @ concat ts
                           @ (if 5 < length xs
                              then summary_more_open @ show_int h (int (length xs) - 5)
                                   @ summary_more_close
                              else [])
                           @ summary_list_close)"
    proof (cases "xs = []")
      case True
      with st rest body show ?thesis by auto
    next
      case False
      with rest obtain ts where
        ts: "list_all2 (\<lambda>x s. summaryItemHtml h x = Inr s) (take 5 xs) ts"
        and r: "rest = summary_list_open @ concat ts
                  @ (if 5 < length xs
                     then summary_more_open @ show_int h (int (length xs) - 5)
                          @ summary_more_close
                     else [])
                  @ summary_list_close"
        by (auto simp: template_Cons_iff template_Nil_iff template_map_Inr
              simp del: template.simps)
      from ts have "length ts = min 5 (length xs)"
        by (auto dest: list_all2_lengthD)
      with st ts r body False show ?thesis by auto
    qed
  qed
next
  from overdueConfig_list[OF assms, of h] obtain cfg where
    cfg: "overdueConfig h data = Inr cfg" and items: "js_get cfg ''items'' = JArr xs"
    and ty: "js_get cfg ''type'' = JStr ''overdue''"
    and un: "js_get cfg ''time'' = JUndefined" "js_get cfg ''tags'' = JUndefined"
    and content: "length xs \<le> 1 \<Longrightarrow>
                js_get cfg ''content''
                  = js_or (js_get_opt (js_first (JArr xs)) ''content'')
                          (js_get_opt (js_first (JArr xs)) ''message'')"
    by blast
  have eq: "popupBody h cfg =
                (if length xs \<le> 1
                 then renderNormalContent h
                        (js_or (js_get_opt (js_first (JArr xs)) ''content'')
                               (js_get_opt (js_first (JArr xs)) ''message''))
                        JUndefined JUndefined
                 else template
                        [Inr overdue_list_open,
                         template (map (overdueItemHtml h) (take 3 xs)),
                         Inr (if 3 < length xs
                              then overdue_more_open @ show_int h (int (length xs) - 3)
                                   @ overdue_more_close
                              else []),
                         Inr overdue_list_close])"
  proof (cases "length xs \<le> 1")
    case True
    with items ty un content show ?thesis
      by (simp add: popupBody_def Let_def)
  next
    case False
    with items ty have "popupBody h cfg = renderOverdueList h (JArr xs)"
      by (simp add: popupBody_def Let_def)
    with False show ?thesis
      by (simp only: renderOverdueList_list if_False)
  qed
  have sample: "\<exists>ts. list_all2 (\<lambda>x s. overdueItemHtml h x = Inr s) (take 3 xs) ts
                       \<and> length ts = min 3 (length xs)
                       \<and> body = overdue_list_open @ concat ts
                           @ (if 3 < length xs
                              then overdue_more_open @ show_int h (int (length xs) - 3)
                                   @ overdue_more_close
                              else [])
                           @ overdue_list_close"
    if "1 < length xs" and "popupBody h cfg = Inr body" for body
  proof -
    from that eq obtain ts where
      ts: "list_all2 (\<lambda>x s. overdueItemHtml h x = Inr s) (take 3 xs) ts"
      and b: "body = overdue_list_open @ concat ts
                           @ (if 3 < length xs
                              then overdue_more_open @ show_int h (int (length xs) - 3)
                                   @ overdue_more_close
                              else [])
                           @ overdue_list_close"
      by (auto simp: template_Cons_iff template_Nil_iff template_map_Inr
            simp del: template.simps)
    from ts have "length ts = min 3 (length xs)"
      by (auto dest: list_all2_lengthD)
    with ts b show ?thesis by blast
  qed
  from cfg items eq sample show "\<exists>cfg. overdueConfig h data = Inr cfg
            \<and> js_get cfg ''items'' = JArr xs
            \<and> popupBody h cfg =
                (if length xs \<le> 1
                 then renderNormalContent h
                        (js_or (js_get_opt (js_first (JArr xs)) ''content'')
                               (js_get_opt (js_first (JArr xs)) ''message''))
                        JUndefined JUndefined
                 else template
                        [Inr overdue_list_open,
                         template (map (overdueItemHtml h) (take 3 xs)),
                         Inr (if 3 < length xs
                              then overdue_more_open @ show_int h (int (length xs) - 3)
                                   @ overdue_more_close
                              else []),
                         Inr overdue_list_close])
            \<and> (1 < length xs \<longrightarrow>
                 (\<forall>body. popupBody h cfg = Inr body \<longrightarrow>
                    (\<exists>ts. list_all2 (\<lambda>x s. overdueItemHtml h x = Inr s) (take 3 xs) ts
                       \<and> length ts = min 3 (length xs)
                       \<and> body = overdue_list_open @ concat ts
                           @ (if 3 < length xs
                              then overdue_more_open @ show_int h (int (length xs) - 3)
                                   @ overdue_more_close
                              else [])
                           @ overdue_list_close)))"
    by blast
qed

lemma titled_item:
  "summaryItemHtml h (JObj [(''title'', JStr t)])
   = Inr (summary_item_open @ ''normal'' @ summary_item_icon @ icon_default
          @ summary_item_content @ escapeText t @ summary_item_close)"
  "overdueItemHtml h (JObj [(''title'', JStr t)])
   = Inr (overdue_item_open @ escapeText t @ overdue_item_title_close
          @ overdue_item_header_close @ overdue_item_close)"
  by (simp_all add: summaryItemHtml_def overdueItemHtml_def escapeHtml_def js_or_def
        getPriorityIcon_def)

text \<open>
  Seven items: five of them and ``2 more'' in a summary, three and ``4 more'' when
  overdue.  An item whose content is an object with a property \<^verbatim>\<open>toString\<close> of its
  own cannot be rendered, and no popup is built.
\<close>

theorem item_lists_are_truncated_witness:
  "(\<exists>stats ts.
      summaryStats demoHost (js_get (summaryConfig (sevenOf ''daily_summary'')) ''summary'')
        = Inr stats
      \<and> length ts = 5
      \<and> popupBody demoHost (summaryConfig (sevenOf ''daily_summary''))
          = Inr (stats @ summary_list_open @ concat ts
                 @ summary_more_open @ ''2'' @ summary_more_close @ summary_list_close))
   \<and> (\<exists>cfg ts.
        overdueConfig demoHost (sevenOf ''overdue'') = Inr cfg
        \<and> length ts = 3
        \<and> popupBody demoHost cfg
            = Inr (overdue_list_open @ concat ts
                   @ overdue_more_open @ ''4'' @ overdue_more_close @ overdue_list_close))
   \<and> popupBody demoHost (summaryConfig ownToString) = Inl TypeError"
proof (intro conjI)
  have i: "js_get (sevenOf k) ''items'' = JArr sevenItems" for k
    by (simp add: sevenOf_def)
  have n: "length sevenItems = 7" "sevenItems \<noteq> []"
    by (simp_all add: sevenItems_def)
  obtain stats where st:
    "summaryStats demoHost (js_get (summaryConfig (sevenOf ''daily_summary'')) ''summary'')
       = Inr stats"
    by (simp add: sevenOf_def summaryConfig_def summaryStats_def Let_def js_or_def)
  have s5: "map (summaryItemHtml demoHost) (take 5 sevenItems)
      = map Inr (map (\<lambda>t. summary_item_open @ ''normal'' @ summary_item_icon @ icon_default
                          @ summary_item_content @ escapeText t @ summary_item_close)
                   [''one'', ''two'', ''three'', ''four'', ''five''])"
    by (simp add: sevenItems_def titled_item)
  have o3: "map (overdueItemHtml demoHost) (take 3 sevenItems)
      = map Inr (map (\<lambda>t. overdue_item_open @ escapeText t @ overdue_item_title_close
                          @ overdue_item_header_close @ overdue_item_close)
                   [''one'', ''two'', ''three''])"
    by (simp add: sevenItems_def titled_item)
  from item_lists_are_truncated[OF i, of demoHost "''daily_summary''"] st n
  have "popupBody demoHost (summaryConfig (sevenOf ''daily_summary''))
      = Inr (stats @ summary_list_open
             @ concat (map (\<lambda>t. summary_item_open @ ''normal'' @ summary_item_icon
                                 @ icon_default @ summary_item_content @ escapeText t
                                 @ summary_item_close)
                         [''one'', ''two'', ''three'', ''four'', ''five''])
             @ summary_more_open @ ''2'' @ summary_more_close @ summary_list_close)"
    unfolding s5 template_literals by (simp add: show_small)
  with st show "\<exists>stats ts.
      summaryStats demoHost (js_get (summaryConfig (sevenOf ''daily_summary'')) ''summary'')
        = Inr stats
      \<and> length ts = 5
      \<and> popupBody demoHost (summaryConfig (sevenOf ''daily_summary''))
          = Inr (stats @ summary_list_open @ concat ts
                 @ summary_more_open @ ''2'' @ summary_more_close @ summary_list_close)"
    by (intro exI[of _ stats]
          exI[of _ "map (\<lambda>t. summary_item_open @ ''normal'' @ summary_item_icon
                                 @ icon_default @ summary_item_content @ escapeText t
                                 @ summary_item_close)
                         [''one'', ''two'', ''three'', ''four'', ''five'']"]) simp
  from item_lists_are_truncated[OF i, of demoHost "''overdue''"] n
  obtain cfg where cfg: "overdueConfig demoHost (sevenOf ''overdue'') = Inr cfg"
    and "popupBody demoHost cfg
      = Inr (overdue_list_open
             @ concat (map (\<lambda>t. overdue_item_open @ escapeText t @ overdue_item_title_close
                                 @ overdue_item_header_close @ overdue_item_close)
                         [''one'', ''two'', ''three''])
             @ overdue_more_open @ ''4'' @ overdue_more_close @ overdue_list_close)"
    unfolding o3 template_literals by (auto simp: show_small)
  then show "\<exists>cfg ts.
        overdueConfig demoHost (sevenOf ''overdue'') = Inr cfg
        \<and> length ts = 3
        \<and> popupBody demoHost cfg
            = Inr (overdue_list_open @ concat ts
                   @ overdue_more_open @ ''4'' @ overdue_more_close @ overdue_list_close)"
    by (intro exI[of _ cfg]
          exI[of _ "map (\<lambda>t. overdue_item_open @ escapeText t @ overdue_item_title_close
                                 @ overdue_item_header_close @ overdue_item_close)
                         [''one'', ''two'', ''three'']"]) simp
  have own: "js_get ownToString ''items''
      = JArr [JObj [(''content'', JObj [(''toString'', JStr ''x'')])]]"
    by (simp add: ownToString_def)
  have "summaryItemHtml demoHost (JObj [(''content'', JObj [(''toString'', JStr ''x'')])])
      = Inl TypeError"
    by (simp add: summaryItemHtml_def escapeHtml_def toString_def js_or_def)
  with item_lists_are_truncated[OF own, of demoHost]
  show "popupBody demoHost (summaryConfig ownToString) = Inl TypeError"
    by (cases "summaryStats demoHost (js_get (summaryConfig ownToString) ''summary'')")
       (simp_all add: error_is_TypeError)
qed

end
